theory Spec2Isabelle
  imports Main "HOL-Library.Word" "HOL-Library.AList"
begin

section \<open>Python values\<close>

text \<open>
  The tools receive loosely typed argument bags and build their answers as dictionaries.
  A value of type \<open>Any\<close> is a \<open>json\<close> value; a \<open>dict\<close> with string keys is an
  association list in insertion order (keys unique); a double is carried as its 64-bit
  pattern and never computed on.
\<close>

type_synonym float = "64 word"

datatype json =
    JNull
  | JBool bool
  | JInt int
  | JFloat float
  | JStr string
  | JList "json list"
  | JDict "(string \<times> json) list"

type_synonym dict = "(string \<times> json) list"

text \<open>Python truthiness (\<open>if x:\<close>).\<close>

fun truthy :: "json \<Rightarrow> bool" where
  "truthy JNull = False"
| "truthy (JBool b) = b"
| "truthy (JInt n) = (n \<noteq> 0)"
| "truthy (JFloat f) = (f \<noteq> 0 \<and> f \<noteq> 0x8000000000000000)"
| "truthy (JStr s) = (s \<noteq> [])"
| "truthy (JList xs) = (xs \<noteq> [])"
| "truthy (JDict d) = (d \<noteq> [])"

definition opt_int :: "int option \<Rightarrow> json" where
  "opt_int n = (case n of None \<Rightarrow> JNull | Some k \<Rightarrow> JInt k)"

definition opt_str :: "string option \<Rightarrow> json" where
  "opt_str s = (case s of None \<Rightarrow> JNull | Some t \<Rightarrow> JStr t)"

definition opt_float :: "float option \<Rightarrow> json" where
  "opt_float x = (case x of None \<Rightarrow> JNull | Some f \<Rightarrow> JFloat f)"

definition quoted :: "string \<Rightarrow> string" where
  "quoted s = [CHR 0x27] @ s @ [CHR 0x27]"

section \<open>Exceptions\<close>

text \<open>
  The subclasses of \<open>Exception\<close> that the tools distinguish. \<open>UnexpectedResponse\<close>
  carries its \<open>status_code\<close>; every exception carries the text \<open>str(e)\<close> gives.
  \<open>UnicodeEncodeError\<close> is a subclass of \<open>ValueError\<close>.
\<close>

datatype exn =
    UnexpectedResponse int string
  | ValueError string
  | UnicodeEncodeError string
  | TypeError string
  | AttributeError string
  | OtherException string

fun str_exn :: "exn \<Rightarrow> string" where
  "str_exn (UnexpectedResponse c m) = m"
| "str_exn (ValueError m) = m"
| "str_exn (UnicodeEncodeError m) = m"
| "str_exn (TypeError m) = m"
| "str_exn (AttributeError m) = m"
| "str_exn (OtherException m) = m"

fun is_ValueError :: "exn \<Rightarrow> bool" where
  "is_ValueError (ValueError m) = True"
| "is_ValueError (UnicodeEncodeError m) = True"
| "is_ValueError _ = False"

section \<open>The result envelope\<close>

text \<open>
  \<open>ToolResponse\<close> and \<open>ToolError\<close>: the field \<open>status\<close> is never passed by the tools,
  so it always holds the default of its class.
\<close>

datatype envelope = ToolResponse (data: json) | ToolError (error: string)

fun status :: "envelope \<Rightarrow> string" where
  "status (ToolResponse d) = ''success''"
| "status (ToolError m) = ''error''"

section \<open>The engine's request and response shapes\<close>

datatype PointId = IntId int | StrId string

datatype Record = Record (rec_id: PointId) (rec_payload: "dict option") (rec_vector: "json option")

datatype ScoredPoint =
  ScoredPoint (sp_id: PointId) (sp_score: float) (sp_payload: "dict option") (sp_vector: "json option")

datatype Distance = COSINE | EUCLID | DOT | MANHATTAN

datatype VectorParams = VectorParams (vp_size: int) (vp_distance: Distance) (vp_on_disk: bool)

datatype SparseVectorParams = SparseVectorParams (sparse_on_disk: bool)

datatype HnswConfigDiff = HnswConfigDiff (hnsw_m: "int option") (hnsw_ef_construct: "int option")

datatype OptimizersConfigDiff =
  OptimizersConfigDiff (indexing_threshold: "int option") (flush_interval_sec: "int option")

datatype Filter = Filter dict

datatype selector = PointIdsList "string list" | FilterSelector Filter

datatype PointStruct = PointStruct (ps_id: string) (ps_vector: json) (ps_payload: dict)

datatype NamedVector = NamedVector (nv_name: string) (nv_vector: json)

datatype SearchRequest =
  SearchRequest (sr_vector: NamedVector) (sr_limit: json) (sr_score_threshold: json)
    (sr_filter: "Filter option") (sr_with_payload: bool) (sr_with_vector: bool)

datatype VectorParamsInfo =
  VectorParamsInfo (vi_size: int) (vi_distance: "string option") (vi_on_disk: "bool option")

datatype vectors_info = NamedVectors "(string \<times> VectorParamsInfo) list" | SingleVector VectorParamsInfo

datatype HnswInfo = HnswInfo (hi_m: int) (hi_ef_construct: int) (hi_full_scan_threshold: int)

text \<open>
  \<open>CollectionInfo\<close> as the tools read it: an enum is held by its \<open>value\<close>, \<open>None\<close>
  where the attribute is \<open>None\<close>; \<open>ci_optimizer\<close> is \<open>None\<close> when \<open>optimizer_status\<close> is
  falsy and \<open>Some None\<close> when its \<open>status\<close> is.
\<close>

datatype CollectionInfo =
  CollectionInfo (ci_status: "string option") (points_count: "int option")
    (vectors_count: "int option") (indexed_vectors_count: "int option")
    (segments_count: "int option") (ci_vectors: vectors_info) (ci_hnsw: "HnswInfo option")
    (ci_optimizer: "string option option") (ci_payload_schema: "(string \<times> string option) list option")

datatype SnapshotDescription =
  SnapshotDescription (sn_name: string) (sn_size: "int option") (sn_creation_time: "string option")

datatype request =
    GetCollections
  | GetCollection string
  | CreateCollection string "(string \<times> VectorParams) list"
      "(string \<times> SparseVectorParams) list option" HnswConfigDiff
  | DeleteCollection string
  | UpdateCollection string "HnswConfigDiff option" "OptimizersConfigDiff option"
  | UpdateCollectionOptimizer string OptimizersConfigDiff
  | Count string "Filter option" bool
  | Retrieve string "string list" bool bool
  | Scroll string int "string option" "Filter option" bool bool
  | Upsert string "PointStruct list" bool
  | Delete string "selector option" bool
  | Search string NamedVector int "float option" "Filter option" bool bool
  | SearchBatch string "SearchRequest list"
  | Recommend string "json list" "json list" int "float option" "Filter option" string bool bool
  | CreateSnapshot string bool
  | ListSnapshots string
  | HttpGet string int
  | Time
  | UtcNow
  | Sleep int

datatype reply =
    RCollections "string list"
  | RInfo CollectionInfo
  | RDone
  | RCount int
  | RRecords "Record list"
  | RScroll "Record list" "PointId option"
  | RScored "ScoredPoint list"
  | RBatch "ScoredPoint list list"
  | RSnapshot "SnapshotDescription option"
  | RSnapshots "SnapshotDescription list"
  | RHttp int "json option"
  | RFloat float
  | RStr string

text \<open>The arguments of the model constructors that are validated when they are built.\<close>

datatype model =
    MFilter dict
  | MPointStruct string json dict
  | MNamedVector string json
  | MSearchRequest NamedVector json json "Filter option"

section \<open>The world outside the tools\<close>

text \<open>
  Everything the tools call and this repository does not define is a parameter:
  the client constructor (\<open>connect\<close>), the engine and the system behind the client's methods
  (\<open>io\<close>, on a state of any type), the \<open>uuid\<close> module, \<open>str\<close> of a value that is not a string,
  the validation of the model constructors, the configured URL and the arithmetic on clock
  readings.
\<close>

record 's env =
  connect :: "exn + unit"
  io :: "request \<Rightarrow> 's \<Rightarrow> (exn + reply) \<times> 's"
  uuid_UUID :: "string \<Rightarrow> exn + unit"
  uuid_uuid5 :: "string \<Rightarrow> exn + string"
  py_repr :: "json \<Rightarrow> string"
  pydantic :: "model \<Rightarrow> exn option"
  qdrant_url :: string
  elapsed_ms :: "float \<Rightarrow> float \<Rightarrow> float"

datatype module = Collections_py | Points_py | Search_py | Admin_py

text \<open>
  \<open>handles\<close>: the modules whose \<open>_client\<close> singleton is set; \<open>trace\<close>: the requests issued
  so far, oldest first; \<open>engine\<close>: the state behind the client.
\<close>

record 's world =
  handles :: "module list"
  trace :: "request list"
  engine :: 's

type_synonym ('s, 'a) act = "'s world \<Rightarrow> (exn + 'a) \<times> 's world"

definition ret :: "'a \<Rightarrow> ('s, 'a) act" where
  "ret x w = (Inr x, w)"

definition throw :: "exn \<Rightarrow> ('s, 'a) act" where
  "throw e w = (Inl e, w)"

definition andthen :: "('s, 'a) act \<Rightarrow> ('a \<Rightarrow> ('s, 'b) act) \<Rightarrow> ('s, 'b) act" where
  "andthen m f w = (case m w of (Inl e, w') \<Rightarrow> (Inl e, w') | (Inr x, w') \<Rightarrow> f x w')"

definition lift :: "exn + 'a \<Rightarrow> ('s, 'a) act" where
  "lift r w = (r, w)"

text \<open>\<open>try: m except ... as e: return h e\<close>, where the clauses of \<open>h\<close> end in \<open>except Exception\<close>.\<close>

definition catch :: "('s, 'a) act \<Rightarrow> (exn \<Rightarrow> 'a) \<Rightarrow> ('s, 'a) act" where
  "catch m h w = (case m w of (Inl e, w') \<Rightarrow> (Inr (h e), w') | (Inr x, w') \<Rightarrow> (Inr x, w'))"

definition call :: "'s env \<Rightarrow> request \<Rightarrow> ('s, reply) act" where
  "call E rq w = (case io E rq (engine w) of
     (r, s') \<Rightarrow> (r, w\<lparr>trace := trace w @ [rq], engine := s'\<rparr>))"

definition get_client :: "'s env \<Rightarrow> module \<Rightarrow> ('s, unit) act" where
  "get_client E m w =
     (if m \<in> set (handles w) then (Inr (), w)
      else (case connect E of
              Inl e \<Rightarrow> (Inl e, w)
            | Inr u \<Rightarrow> (Inr (), w\<lparr>handles := m # handles w\<rparr>)))"

fun collect :: "('a \<Rightarrow> exn + 'b) \<Rightarrow> 'a list \<Rightarrow> exn + 'b list" where
  "collect f [] = Inr []"
| "collect f (x # xs) =
     (case f x of
        Inl e \<Rightarrow> Inl e
      | Inr y \<Rightarrow> (case collect f xs of Inl e \<Rightarrow> Inl e | Inr ys \<Rightarrow> Inr (y # ys)))"

text \<open>A reply of another shape than the method's: reading it raises \<open>AttributeError\<close>.\<close>

definition bad_reply :: exn where
  "bad_reply = AttributeError ''unexpected reply''"

definition client_get_collections :: "'s env \<Rightarrow> ('s, string list) act" where
  "client_get_collections E =
     andthen (call E GetCollections) (\<lambda>r. case r of RCollections ns \<Rightarrow> ret ns | _ \<Rightarrow> throw bad_reply)"

definition client_get_collection :: "'s env \<Rightarrow> string \<Rightarrow> ('s, CollectionInfo) act" where
  "client_get_collection E name =
     andthen (call E (GetCollection name)) (\<lambda>r. case r of RInfo i \<Rightarrow> ret i | _ \<Rightarrow> throw bad_reply)"

definition client_count :: "'s env \<Rightarrow> string \<Rightarrow> Filter option \<Rightarrow> bool \<Rightarrow> ('s, int) act" where
  "client_count E c f exact =
     andthen (call E (Count c f exact)) (\<lambda>r. case r of RCount n \<Rightarrow> ret n | _ \<Rightarrow> throw bad_reply)"

definition client_retrieve ::
  "'s env \<Rightarrow> string \<Rightarrow> string list \<Rightarrow> bool \<Rightarrow> bool \<Rightarrow> ('s, Record list) act" where
  "client_retrieve E c ids wp wv =
     andthen (call E (Retrieve c ids wp wv))
       (\<lambda>r. case r of RRecords rs \<Rightarrow> ret rs | _ \<Rightarrow> throw bad_reply)"

definition client_scroll ::
  "'s env \<Rightarrow> string \<Rightarrow> int \<Rightarrow> string option \<Rightarrow> Filter option \<Rightarrow> bool \<Rightarrow> bool
     \<Rightarrow> ('s, Record list \<times> PointId option) act" where
  "client_scroll E c limit offset f wp wv =
     andthen (call E (Scroll c limit offset f wp wv))
       (\<lambda>r. case r of RScroll rs nxt \<Rightarrow> ret (rs, nxt) | _ \<Rightarrow> throw bad_reply)"

text \<open>Methods whose result the tools discard.\<close>

definition client_do :: "'s env \<Rightarrow> request \<Rightarrow> ('s, unit) act" where
  "client_do E rq = andthen (call E rq) (\<lambda>r. ret ())"

section \<open>tools/points.py\<close>

definition str_of :: "'s env \<Rightarrow> json \<Rightarrow> string" where
  "str_of E v = (case v of JStr s \<Rightarrow> s | _ \<Rightarrow> py_repr E v)"

definition str_id :: "'s env \<Rightarrow> PointId \<Rightarrow> string" where
  "str_id E p = (case p of StrId s \<Rightarrow> s | IntId n \<Rightarrow> py_repr E (JInt n))"

text \<open>
  \<open>_to_uuid\<close>: the handler of \<open>ValueError\<close> calls \<open>uuid5\<close> outside any \<open>try\<close>, so what
  \<open>uuid5\<close> raises leaves the function, as does what \<open>UUID\<close> raises that is no \<open>ValueError\<close>.
\<close>

definition to_uuid :: "'s env \<Rightarrow> json \<Rightarrow> exn + string" where
  "to_uuid E id_str =
     (case uuid_UUID E (str_of E id_str) of
        Inr u \<Rightarrow> Inr (str_of E id_str)
      | Inl e \<Rightarrow> (if is_ValueError e then uuid_uuid5 E (str_of E id_str) else Inl e))"

text \<open>The handlers shared by most tools: a 404 names the collection.\<close>

definition handler :: "string \<Rightarrow> string \<Rightarrow> exn \<Rightarrow> envelope" where
  "handler what collection e =
     (case e of
        UnexpectedResponse code m \<Rightarrow>
          (if code = 404 then ToolError (''Collection '' @ quoted collection @ '' not found'')
           else ToolError (what @ '': '' @ str_exn e))
      | _ \<Rightarrow> ToolError (what @ '': '' @ str_exn e))"

definition handler_plain :: "string \<Rightarrow> exn \<Rightarrow> envelope" where
  "handler_plain what e = ToolError (what @ '': '' @ str_exn e)"

text \<open>
  \<open>if filter: try: Filter(**filter) except Exception as e: return ToolError(...)\<close>;
  \<open>Inl\<close> is the early return.
\<close>

definition build_filter :: "'s env \<Rightarrow> dict option \<Rightarrow> envelope + Filter option" where
  "build_filter E flt =
     (case flt of
        None \<Rightarrow> Inr None
      | Some d \<Rightarrow>
          (if d = [] then Inr None
           else (case pydantic E (MFilter d) of
                   Some e \<Rightarrow> Inl (ToolError (''Invalid filter format: '' @ str_exn e))
                 | None \<Rightarrow> Inr (Some (Filter d)))))"

definition count_points :: "'s env \<Rightarrow> string \<Rightarrow> bool \<Rightarrow> dict option \<Rightarrow> ('s, envelope) act" where
  "count_points E collection exact flt =
     catch
       (andthen (get_client E Points_py) (\<lambda>u.
          case build_filter E flt of
            Inl err \<Rightarrow> ret err
          | Inr qdrant_filter \<Rightarrow>
              andthen (client_count E collection qdrant_filter exact) (\<lambda>n.
                ret (ToolResponse (JDict
                  [(''collection'', JStr collection), (''count'', JInt n), (''exact'', JBool exact)])))))
       (handler ''Failed to count points'' collection)"

text \<open>\<open>point.vector if isinstance(point.vector, list) else dict(point.vector)\<close>\<close>

definition vector_out :: "json \<Rightarrow> exn + json" where
  "vector_out v =
     (case v of
        JList xs \<Rightarrow> Inr v
      | JDict d \<Rightarrow> Inr v
      | _ \<Rightarrow> Inl (TypeError ''object is not iterable''))"

definition truthy_opt_dict :: "dict option \<Rightarrow> bool" where
  "truthy_opt_dict p = (case p of None \<Rightarrow> False | Some d \<Rightarrow> d \<noteq> [])"

definition truthy_opt :: "json option \<Rightarrow> bool" where
  "truthy_opt v = (case v of None \<Rightarrow> False | Some x \<Rightarrow> truthy x)"

definition point_data :: "'s env \<Rightarrow> bool \<Rightarrow> bool \<Rightarrow> Record \<Rightarrow> exn + json" where
  "point_data E with_payload with_vector point =
     (let d0 = [(''id'', JStr (str_id E (rec_id point)))];
          d1 = (if with_payload \<and> truthy_opt_dict (rec_payload point)
                then AList.update ''payload'' (JDict (case rec_payload point of Some d \<Rightarrow> d | None \<Rightarrow> [])) d0
                else d0)
      in if with_vector \<and> truthy_opt (rec_vector point)
         then (case vector_out (case rec_vector point of Some v \<Rightarrow> v | None \<Rightarrow> JNull) of
                 Inl e \<Rightarrow> Inl e
               | Inr v \<Rightarrow> Inr (JDict (AList.update ''vector'' v d1)))
         else Inr (JDict d1))"

definition get_points ::
  "'s env \<Rightarrow> string \<Rightarrow> json list \<Rightarrow> bool \<Rightarrow> bool \<Rightarrow> ('s, envelope) act" where
  "get_points E collection ids with_payload with_vector =
     catch
       (andthen (get_client E Points_py) (\<lambda>u.
        andthen (lift (collect (to_uuid E) ids)) (\<lambda>uuid_ids.
        andthen (client_retrieve E collection uuid_ids with_payload with_vector) (\<lambda>result.
        andthen (lift (collect (point_data E with_payload with_vector) result)) (\<lambda>points.
          ret (ToolResponse (JDict
            [(''collection'', JStr collection),
             (''points'', JList points),
             (''found_count'', JInt (int (length points))),
             (''requested_count'', JInt (int (length ids)))])))))))
       (handler ''Failed to get points'' collection)"

definition truthy_id :: "PointId \<Rightarrow> bool" where
  "truthy_id p = (case p of IntId n \<Rightarrow> n \<noteq> 0 | StrId s \<Rightarrow> s \<noteq> [])"

text \<open>\<open>str(next_offset) if next_offset else None\<close>\<close>

definition next_offset_out :: "'s env \<Rightarrow> PointId option \<Rightarrow> json" where
  "next_offset_out E next_offset =
     (case next_offset of
        None \<Rightarrow> JNull
      | Some p \<Rightarrow> (if truthy_id p then JStr (str_id E p) else JNull))"

definition scroll_points ::
  "'s env \<Rightarrow> string \<Rightarrow> int \<Rightarrow> string option \<Rightarrow> dict option \<Rightarrow> bool \<Rightarrow> bool \<Rightarrow> ('s, envelope) act" where
  "scroll_points E collection limit offset flt with_payload with_vector =
     catch
       (andthen (get_client E Points_py) (\<lambda>u.
          case build_filter E flt of
            Inl err \<Rightarrow> ret err
          | Inr qdrant_filter \<Rightarrow>
              andthen (client_scroll E collection limit offset qdrant_filter with_payload with_vector)
                (\<lambda>(result, next_offset).
              andthen (lift (collect (point_data E with_payload with_vector) result)) (\<lambda>points.
                ret (ToolResponse (JDict
                  [(''collection'', JStr collection),
                   (''points'', JList points),
                   (''count'', JInt (int (length points))),
                   (''next_offset'', next_offset_out E next_offset),
                   (''has_more'', JBool (next_offset \<noteq> None))]))))))
       (handler ''Failed to scroll points'' collection)"

definition each_point_msg :: string where
  "each_point_msg =
     ''Each point must have '' @ quoted ''id'' @ '' and '' @ quoted ''vector'' @ '' fields''"

text \<open>
  The body of the loop of \<open>upsert_points\<close> on one point: \<open>Inr (Inl r)\<close> is the
  \<open>return r\<close> inside the loop, \<open>Inl e\<close> an exception, \<open>Inr (Inr q)\<close> the \<open>PointStruct\<close>
  appended to \<open>qdrant_points\<close>.
\<close>

definition upsert_point :: "'s env \<Rightarrow> dict \<Rightarrow> exn + (envelope + PointStruct)" where
  "upsert_point E p =
     (case (map_of p ''id'', map_of p ''vector'') of
        (Some pid, Some vec) \<Rightarrow>
          (case to_uuid E pid of
             Inl e \<Rightarrow> Inl e
           | Inr point_id \<Rightarrow>
               (let vector = (case vec of JList xs \<Rightarrow> JDict [(''text-dense'', vec)] | _ \<Rightarrow> vec)
                in case (case map_of p ''payload'' of None \<Rightarrow> JDict [] | Some x \<Rightarrow> x) of
                     JDict payload0 \<Rightarrow>
                       (let payload = AList.update ''original_id'' pid payload0
                        in case pydantic E (MPointStruct point_id vector payload) of
                             Some e \<Rightarrow> Inl e
                           | None \<Rightarrow> Inr (Inr (PointStruct point_id vector payload)))
                   | _ \<Rightarrow> Inl (TypeError ''object does not support item assignment'')))
      | _ \<Rightarrow> Inr (Inl (ToolError each_point_msg)))"

fun upsert_loop ::
  "'s env \<Rightarrow> dict list \<Rightarrow> PointStruct list \<Rightarrow> exn + (envelope + PointStruct list)" where
  "upsert_loop E [] qdrant_points = Inr (Inr qdrant_points)"
| "upsert_loop E (p # ps) qdrant_points =
     (case upsert_point E p of
        Inl e \<Rightarrow> Inl e
      | Inr (Inl early) \<Rightarrow> Inr (Inl early)
      | Inr (Inr q) \<Rightarrow> upsert_loop E ps (qdrant_points @ [q]))"

text \<open>
  What the spec calls a valid point, stated on the arguments and not on the loop: \<open>p\<close> has
  an \<open>id\<close> that normalizes and a \<open>vector\<close>, its \<open>payload\<close> is absent or a dictionary, and
  \<open>q\<close> is the point it is to be sent as: the normalized identifier, the vector (a bare
  list under \<open>text-dense\<close>), the payload with the caller's identifier under \<open>original_id\<close>,
  accepted by the constructor of \<open>PointStruct\<close>.
\<close>

definition sent_as :: "'s env \<Rightarrow> dict \<Rightarrow> PointStruct \<Rightarrow> bool" where
  "sent_as E p q =
     (\<exists>pid vec pl0.
        map_of p ''id'' = Some pid \<and> map_of p ''vector'' = Some vec
      \<and> (map_of p ''payload'' = None \<and> pl0 = [] \<or> map_of p ''payload'' = Some (JDict pl0))
      \<and> to_uuid E pid = Inr (ps_id q)
      \<and> ps_vector q = (case vec of JList xs \<Rightarrow> JDict [(''text-dense'', JList xs)] | _ \<Rightarrow> vec)
      \<and> ps_payload q = AList.update ''original_id'' pid pl0
      \<and> pydantic E (MPointStruct (ps_id q) (ps_vector q) (ps_payload q)) = None)"

definition upsert_points :: "'s env \<Rightarrow> string \<Rightarrow> dict list \<Rightarrow> bool \<Rightarrow> ('s, envelope) act" where
  "upsert_points E collection points wait =
     catch
       (andthen (get_client E Points_py) (\<lambda>u.
          if points = [] then ret (ToolError ''No points provided'')
          else andthen (lift (upsert_loop E points [])) (\<lambda>r.
            case r of
              Inl early \<Rightarrow> ret early
            | Inr qdrant_points \<Rightarrow>
                andthen (client_do E (Upsert collection qdrant_points wait)) (\<lambda>u.
                  ret (ToolResponse (JDict
                    [(''collection'', JStr collection),
                     (''upserted_count'', JInt (int (length qdrant_points))),
                     (''operation'', JStr ''upsert'')]))))))
       (handler ''Failed to upsert points'' collection)"

definition truthy_ids :: "json list option \<Rightarrow> bool" where
  "truthy_ids ids = (case ids of None \<Rightarrow> False | Some xs \<Rightarrow> xs \<noteq> [])"

definition truthy_filter :: "dict option \<Rightarrow> bool" where
  "truthy_filter flt = (case flt of None \<Rightarrow> False | Some d \<Rightarrow> d \<noteq> [])"

text \<open>
  The selector of \<open>delete_points\<close>: \<open>Inr (Inl r)\<close> is the \<open>return r\<close> of the inner handler,
  \<open>Inr (Inr None)\<close> the selector left at \<open>None\<close>.
\<close>

definition points_selector ::
  "'s env \<Rightarrow> json list option \<Rightarrow> dict option \<Rightarrow> exn + (envelope + selector option)" where
  "points_selector E ids flt =
     (if truthy_ids ids then
        (case collect (to_uuid E) (case ids of Some xs \<Rightarrow> xs | None \<Rightarrow> []) of
           Inl e \<Rightarrow> Inl e
         | Inr uuid_ids \<Rightarrow> Inr (Inr (Some (PointIdsList uuid_ids))))
      else if truthy_filter flt then
        (case pydantic E (MFilter (case flt of Some d \<Rightarrow> d | None \<Rightarrow> [])) of
           Some e \<Rightarrow> Inr (Inl (ToolError (''Invalid filter format: '' @ str_exn e)))
         | None \<Rightarrow> Inr (Inr (Some (FilterSelector (Filter (case flt of Some d \<Rightarrow> d | None \<Rightarrow> []))))))
      else Inr (Inr None))"

definition either_msg :: string where
  "either_msg = ''Either '' @ quoted ''ids'' @ '' or '' @ quoted ''filter'' @ '' must be provided''"

definition delete_points ::
  "'s env \<Rightarrow> string \<Rightarrow> json list option \<Rightarrow> dict option \<Rightarrow> bool \<Rightarrow> ('s, envelope) act" where
  "delete_points E collection ids flt wait =
     catch
       (andthen (get_client E Points_py) (\<lambda>u.
          if ids = None \<and> flt = None
          then ret (ToolError either_msg)
          else andthen (lift (points_selector E ids flt)) (\<lambda>r.
            case r of
              Inl early \<Rightarrow> ret early
            | Inr sel \<Rightarrow>
                andthen (client_do E (Delete collection sel wait)) (\<lambda>u.
                  ret (ToolResponse (JDict
                    [(''collection'', JStr collection),
                     (''operation'', JStr ''delete''),
                     (''deleted_by'', JStr (if truthy_ids ids then ''ids'' else ''filter'')),
                     (''ids_count'',
                        (if truthy_ids ids
                         then JInt (int (length (case ids of Some xs \<Rightarrow> xs | None \<Rightarrow> [])))
                         else JNull))]))))))
       (handler ''Failed to delete points'' collection)"

section \<open>tools/collections.py\<close>

definition status_value :: "CollectionInfo \<Rightarrow> json" where
  "status_value info = JStr (case ci_status info of Some v \<Rightarrow> v | None \<Rightarrow> ''unknown'')"

definition collection_entry :: "string \<Rightarrow> CollectionInfo \<Rightarrow> json" where
  "collection_entry name info =
     JDict [(''name'', JStr name),
            (''status'', status_value info),
            (''points_count'', opt_int (points_count info)),
            (''vectors_count'', opt_int (vectors_count info)),
            (''indexed_vectors_count'', opt_int (indexed_vectors_count info)),
            (''segments_count'', opt_int (segments_count info))]"

definition collection_unknown :: "string \<Rightarrow> json" where
  "collection_unknown name =
     JDict [(''name'', JStr name), (''status'', JStr ''unknown''), (''points_count'', JInt 0)]"

text \<open>The loop of \<open>list_collections\<close>: a failed lookup gives the entry of status unknown.\<close>

fun list_loop :: "'s env \<Rightarrow> string list \<Rightarrow> json list \<Rightarrow> ('s, json list) act" where
  "list_loop E [] collections w = (Inr collections, w)"
| "list_loop E (name # names) collections w =
     (case client_get_collection E name w of
        (Inl e, w') \<Rightarrow> list_loop E names (collections @ [collection_unknown name]) w'
      | (Inr info, w') \<Rightarrow> list_loop E names (collections @ [collection_entry name info]) w')"

definition list_collections :: "'s env \<Rightarrow> ('s, envelope) act" where
  "list_collections E =
     catch
       (andthen (get_client E Collections_py) (\<lambda>u.
        andthen (client_get_collections E) (\<lambda>names.
        andthen (list_loop E names []) (\<lambda>collections.
          ret (ToolResponse (JDict
            [(''collections'', JList collections),
             (''total_count'', JInt (int (length collections)))]))))))
       (handler_plain ''Failed to list collections'')"

text \<open>\<open>str.lower\<close> on the letters A to Z; no other character lowers to an ASCII letter of
  a key of \<open>distance_map\<close>.\<close>

definition lower_char :: "char \<Rightarrow> char" where
  "lower_char c =
     (if (65::nat) \<le> of_char c \<and> of_char c \<le> (90::nat) then char_of (of_char c + (32::nat)) else c)"

definition lower :: "string \<Rightarrow> string" where
  "lower s = map lower_char s"

definition distance_map :: "(string \<times> Distance) list" where
  "distance_map = [(''cosine'', COSINE), (''euclid'', EUCLID), (''dot'', DOT)]"

definition distance_enum :: "string \<Rightarrow> Distance" where
  "distance_enum distance =
     (case map_of distance_map (lower distance) of Some d \<Rightarrow> d | None \<Rightarrow> COSINE)"

definition create_collection ::
  "'s env \<Rightarrow> string \<Rightarrow> int \<Rightarrow> string \<Rightarrow> bool \<Rightarrow> int \<Rightarrow> int \<Rightarrow> bool \<Rightarrow> ('s, envelope) act" where
  "create_collection E name vector_size distance on_disk m ef_construct enable_sparse =
     catch
       (andthen (get_client E Collections_py) (\<lambda>u.
        andthen (client_get_collections E) (\<lambda>names.
          if name \<in> set names
          then ret (ToolError (''Collection '' @ quoted name @ '' already exists''))
          else
            (let vectors_config =
                   [(''text-dense'', VectorParams vector_size (distance_enum distance) on_disk)];
                 sparse_vectors_config =
                   (if enable_sparse then Some [(''text-sparse'', SparseVectorParams on_disk)]
                    else None);
                 hnsw_config = HnswConfigDiff (Some m) (Some ef_construct)
             in andthen
                  (client_do E (CreateCollection name vectors_config sparse_vectors_config hnsw_config))
                  (\<lambda>u. ret (ToolResponse (JDict
                     [(''message'', JStr (''Collection '' @ quoted name @ '' created successfully'')),
                      (''config'', JDict
                         [(''name'', JStr name),
                          (''vector_size'', JInt vector_size),
                          (''distance'', JStr distance),
                          (''on_disk'', JBool on_disk),
                          (''hnsw_m'', JInt m),
                          (''hnsw_ef_construct'', JInt ef_construct),
                          (''sparse_enabled'', JBool enable_sparse)])])))))))
       (handler_plain ''Failed to create collection'')"

definition delete_collection :: "'s env \<Rightarrow> string \<Rightarrow> bool \<Rightarrow> ('s, envelope) act" where
  "delete_collection E name confirm =
     catch
       (if \<not> confirm
        then ret (ToolError ''Deletion requires confirm=true to prevent accidental data loss'')
        else
          andthen (get_client E Collections_py) (\<lambda>u.
          andthen (client_get_collections E) (\<lambda>names.
            if name \<notin> set names
            then ret (ToolError (''Collection '' @ quoted name @ '' does not exist''))
            else
              andthen (client_get_collection E name) (\<lambda>info.
              andthen (client_do E (DeleteCollection name)) (\<lambda>u.
                ret (ToolResponse (JDict
                  [(''message'', JStr (''Collection '' @ quoted name @ '' deleted successfully'')),
                   (''deleted_points'', opt_int (points_count info))])))))))
       (handler_plain ''Failed to delete collection'')"

definition opt_bool :: "bool option \<Rightarrow> json" where
  "opt_bool b = (case b of None \<Rightarrow> JNull | Some x \<Rightarrow> JBool x)"

definition value_or_unknown :: "string option \<Rightarrow> json" where
  "value_or_unknown v = JStr (case v of Some x \<Rightarrow> x | None \<Rightarrow> ''unknown'')"

definition vectors_config_out :: "vectors_info \<Rightarrow> dict" where
  "vectors_config_out vs =
     (case vs of
        NamedVectors named \<Rightarrow>
          foldl (\<lambda>acc (vec_name, p). AList.update vec_name
                   (JDict [(''size'', JInt (vi_size p)),
                           (''distance'', value_or_unknown (vi_distance p)),
                           (''on_disk'', opt_bool (vi_on_disk p))]) acc) [] named
      | SingleVector p \<Rightarrow>
          [(''default'', JDict [(''size'', JInt (vi_size p)),
                                (''distance'', value_or_unknown (vi_distance p))])])"

definition hnsw_config_out :: "HnswInfo option \<Rightarrow> dict" where
  "hnsw_config_out h =
     (case h of
        None \<Rightarrow> []
      | Some c \<Rightarrow> [(''m'', JInt (hi_m c)),
                   (''ef_construct'', JInt (hi_ef_construct c)),
                   (''full_scan_threshold'', JInt (hi_full_scan_threshold c))])"

definition optimizer_status_out :: "string option option \<Rightarrow> json" where
  "optimizer_status_out s =
     JStr (case s of Some (Some v) \<Rightarrow> v | _ \<Rightarrow> ''unknown'')"

definition payload_schema_out :: "(string \<times> string option) list option \<Rightarrow> dict" where
  "payload_schema_out s =
     foldl (\<lambda>acc (k, v). AList.update k (value_or_unknown v) acc) []
       (case s of Some schema \<Rightarrow> schema | None \<Rightarrow> [])"

definition get_collection_info :: "'s env \<Rightarrow> string \<Rightarrow> ('s, envelope) act" where
  "get_collection_info E name =
     catch
       (andthen (get_client E Collections_py) (\<lambda>u.
        andthen (client_get_collection E name) (\<lambda>info.
          ret (ToolResponse (JDict
            [(''name'', JStr name),
             (''status'', status_value info),
             (''points_count'', opt_int (points_count info)),
             (''vectors_count'', opt_int (vectors_count info)),
             (''indexed_vectors_count'', opt_int (indexed_vectors_count info)),
             (''segments_count'', opt_int (segments_count info)),
             (''vectors_config'', JDict (vectors_config_out (ci_vectors info))),
             (''hnsw_config'', JDict (hnsw_config_out (ci_hnsw info))),
             (''optimizer_status'', optimizer_status_out (ci_optimizer info)),
             (''payload_schema'', JDict (payload_schema_out (ci_payload_schema info)))])))))
       (handler ''Failed to get collection info'' name)"

definition update_collection ::
  "'s env \<Rightarrow> string \<Rightarrow> int option \<Rightarrow> int option \<Rightarrow> int option \<Rightarrow> int option \<Rightarrow> ('s, envelope) act" where
  "update_collection E name m ef_construct threshold flush =
     catch
       (andthen (get_client E Collections_py) (\<lambda>u.
          (let hnsw_config =
                 (if m \<noteq> None \<or> ef_construct \<noteq> None then Some (HnswConfigDiff m ef_construct)
                  else None);
               optimizers_config =
                 (if threshold \<noteq> None \<or> flush \<noteq> None then Some (OptimizersConfigDiff threshold flush)
                  else None)
           in if hnsw_config = None \<and> optimizers_config = None
              then ret (ToolError ''No update parameters provided'')
              else andthen (client_do E (UpdateCollection name hnsw_config optimizers_config)) (\<lambda>u.
                     ret (ToolResponse (JDict
                       [(''message'', JStr (''Collection '' @ quoted name @ '' updated successfully'')),
                        (''updates'', JDict
                           [(''hnsw_m'', opt_int m),
                            (''hnsw_ef_construct'', opt_int ef_construct),
                            (''indexing_threshold'', opt_int threshold),
                            (''flush_interval_sec'', opt_int flush)])]))))))
       (handler ''Failed to update collection'' name)"

section \<open>tools/search.py\<close>

definition client_search ::
  "'s env \<Rightarrow> string \<Rightarrow> NamedVector \<Rightarrow> int \<Rightarrow> float option \<Rightarrow> Filter option \<Rightarrow> bool \<Rightarrow> bool
     \<Rightarrow> ('s, ScoredPoint list) act" where
  "client_search E c qv limit thr f wp wv =
     andthen (call E (Search c qv limit thr f wp wv))
       (\<lambda>r. case r of RScored ps \<Rightarrow> ret ps | _ \<Rightarrow> throw bad_reply)"

definition client_search_batch ::
  "'s env \<Rightarrow> string \<Rightarrow> SearchRequest list \<Rightarrow> ('s, ScoredPoint list list) act" where
  "client_search_batch E c rqs =
     andthen (call E (SearchBatch c rqs))
       (\<lambda>r. case r of RBatch pss \<Rightarrow> ret pss | _ \<Rightarrow> throw bad_reply)"

definition client_recommend ::
  "'s env \<Rightarrow> string \<Rightarrow> json list \<Rightarrow> json list \<Rightarrow> int \<Rightarrow> float option \<Rightarrow> Filter option \<Rightarrow> string
     \<Rightarrow> bool \<Rightarrow> bool \<Rightarrow> ('s, ScoredPoint list) act" where
  "client_recommend E c pos neg limit thr f using wp wv =
     andthen (call E (Recommend c pos neg limit thr f using wp wv))
       (\<lambda>r. case r of RScored ps \<Rightarrow> ret ps | _ \<Rightarrow> throw bad_reply)"

text \<open>The entry of a scored point without its vector, and with it.\<close>

definition scored_entry :: "'s env \<Rightarrow> bool \<Rightarrow> ScoredPoint \<Rightarrow> dict" where
  "scored_entry E with_payload point =
     (let d0 = [(''id'', JStr (str_id E (sp_id point))), (''score'', JFloat (sp_score point))]
      in if with_payload \<and> truthy_opt_dict (sp_payload point)
         then AList.update ''payload''
                (JDict (case sp_payload point of Some d \<Rightarrow> d | None \<Rightarrow> [])) d0
         else d0)"

definition scored_data :: "'s env \<Rightarrow> bool \<Rightarrow> bool \<Rightarrow> ScoredPoint \<Rightarrow> exn + json" where
  "scored_data E with_payload with_vector point =
     (if with_vector \<and> truthy_opt (sp_vector point)
      then (case vector_out (case sp_vector point of Some v \<Rightarrow> v | None \<Rightarrow> JNull) of
              Inl e \<Rightarrow> Inl e
            | Inr v \<Rightarrow> Inr (JDict (AList.update ''vector'' v (scored_entry E with_payload point))))
      else Inr (JDict (scored_entry E with_payload point)))"

definition search_vectors ::
  "'s env \<Rightarrow> string \<Rightarrow> json list \<Rightarrow> int \<Rightarrow> float option \<Rightarrow> dict option \<Rightarrow> string \<Rightarrow> bool \<Rightarrow> bool
     \<Rightarrow> ('s, envelope) act" where
  "search_vectors E collection vector limit score_threshold flt vector_name with_payload with_vector =
     catch
       (andthen (get_client E Search_py) (\<lambda>u.
          case build_filter E flt of
            Inl err \<Rightarrow> ret err
          | Inr qdrant_filter \<Rightarrow>
              (case pydantic E (MNamedVector vector_name (JList vector)) of
                 Some e \<Rightarrow> throw e
               | None \<Rightarrow>
                   andthen
                     (client_search E collection (NamedVector vector_name (JList vector)) limit
                        score_threshold qdrant_filter with_payload with_vector) (\<lambda>results.
                   andthen (lift (collect (scored_data E with_payload with_vector) results))
                     (\<lambda>search_results.
                     ret (ToolResponse (JDict
                       [(''collection'', JStr collection),
                        (''results'', JList search_results),
                        (''count'', JInt (int (length search_results))),
                        (''vector_name'', JStr vector_name),
                        (''score_threshold'', opt_float score_threshold)])))))))
       (handler ''Failed to search'' collection)"

text \<open>\<open>Filter(**q["filter"]) if q.get("filter") else None\<close>\<close>

definition query_filter :: "'s env \<Rightarrow> dict \<Rightarrow> exn + Filter option" where
  "query_filter E q =
     (case map_of q ''filter'' of
        None \<Rightarrow> Inr None
      | Some x \<Rightarrow>
          (if truthy x
           then (case x of
                   JDict d \<Rightarrow>
                     (case pydantic E (MFilter d) of
                        Some e \<Rightarrow> Inl e
                      | None \<Rightarrow> Inr (Some (Filter d)))
                 | _ \<Rightarrow> Inl (TypeError ''argument after ** must be a mapping''))
           else Inr None))"

text \<open>The body of the loop of \<open>search_batch\<close> on one query, with the outcomes of
  \<open>upsert_point\<close>.\<close>

definition batch_request ::
  "'s env \<Rightarrow> string \<Rightarrow> bool \<Rightarrow> dict \<Rightarrow> exn + (envelope + SearchRequest)" where
  "batch_request E vector_name with_payload q =
     (case map_of q ''vector'' of
        None \<Rightarrow> Inr (Inl (ToolError (''Each query must have a '' @ quoted ''vector'' @ '' field'')))
      | Some v \<Rightarrow>
          (case pydantic E (MNamedVector vector_name v) of
             Some e \<Rightarrow> Inl e
           | None \<Rightarrow>
               (let limit = (case map_of q ''limit'' of None \<Rightarrow> JInt 10 | Some l \<Rightarrow> l);
                    thr = (case map_of q ''score_threshold'' of None \<Rightarrow> JNull | Some t \<Rightarrow> t)
                in case query_filter E q of
                     Inl e \<Rightarrow> Inl e
                   | Inr f \<Rightarrow>
                       (case pydantic E (MSearchRequest (NamedVector vector_name v) limit thr f) of
                          Some e \<Rightarrow> Inl e
                        | None \<Rightarrow>
                            Inr (Inr (SearchRequest (NamedVector vector_name v) limit thr f
                                        with_payload False))))))"

fun batch_loop ::
  "'s env \<Rightarrow> string \<Rightarrow> bool \<Rightarrow> dict list \<Rightarrow> SearchRequest list
     \<Rightarrow> exn + (envelope + SearchRequest list)" where
  "batch_loop E vector_name with_payload [] search_requests = Inr (Inr search_requests)"
| "batch_loop E vector_name with_payload (q # qs) search_requests =
     (case batch_request E vector_name with_payload q of
        Inl e \<Rightarrow> Inl e
      | Inr (Inl early) \<Rightarrow> Inr (Inl early)
      | Inr (Inr request) \<Rightarrow>
          batch_loop E vector_name with_payload qs (search_requests @ [request]))"

definition search_batch ::
  "'s env \<Rightarrow> string \<Rightarrow> dict list \<Rightarrow> string \<Rightarrow> bool \<Rightarrow> ('s, envelope) act" where
  "search_batch E collection queries vector_name with_payload =
     catch
       (andthen (get_client E Search_py) (\<lambda>u.
          if queries = [] then ret (ToolError ''No queries provided'')
          else andthen (lift (batch_loop E vector_name with_payload queries [])) (\<lambda>r.
            case r of
              Inl early \<Rightarrow> ret early
            | Inr search_requests \<Rightarrow>
                andthen (client_search_batch E collection search_requests) (\<lambda>results.
                  ret (ToolResponse (JDict
                    [(''collection'', JStr collection),
                     (''batch_results'',
                        JList (map (\<lambda>query_results.
                           JList (map (\<lambda>point. JDict (scored_entry E with_payload point))
                                    query_results)) results)),
                     (''query_count'', JInt (int (length queries)))]))))))
       (handler ''Failed to batch search'' collection)"

definition recommend_points ::
  "'s env \<Rightarrow> string \<Rightarrow> json list \<Rightarrow> json list option \<Rightarrow> int \<Rightarrow> float option \<Rightarrow> dict option
     \<Rightarrow> string \<Rightarrow> bool \<Rightarrow> ('s, envelope) act" where
  "recommend_points E collection positive negative limit score_threshold flt vector_name with_payload =
     catch
       (andthen (get_client E Search_py) (\<lambda>u.
          if positive = [] then ret (ToolError ''At least one positive example is required'')
          else
            (case build_filter E flt of
               Inl err \<Rightarrow> ret err
             | Inr qdrant_filter \<Rightarrow>
                 (let negative_or_empty = (case negative of None \<Rightarrow> [] | Some n \<Rightarrow> n)
                  in andthen
                       (client_recommend E collection positive negative_or_empty limit
                          score_threshold qdrant_filter vector_name with_payload False)
                       (\<lambda>results.
                         ret (ToolResponse (JDict
                           [(''collection'', JStr collection),
                            (''recommendations'',
                               JList (map (\<lambda>point. JDict (scored_entry E with_payload point))
                                        results)),
                            (''count'', JInt (int (length results))),
                            (''positive_examples'', JList positive),
                            (''negative_examples'', JList negative_or_empty)])))))))
       (handler ''Failed to get recommendations'' collection)"

section \<open>tools/admin.py\<close>

definition utcnow :: "'s env \<Rightarrow> ('s, string) act" where
  "utcnow E = andthen (call E UtcNow) (\<lambda>r. case r of RStr t \<Rightarrow> ret t | _ \<Rightarrow> throw bad_reply)"

definition time :: "'s env \<Rightarrow> ('s, float) act" where
  "time E = andthen (call E Time) (\<lambda>r. case r of RFloat t \<Rightarrow> ret t | _ \<Rightarrow> throw bad_reply)"

definition http_get :: "'s env \<Rightarrow> string \<Rightarrow> int \<Rightarrow> ('s, int \<times> json option) act" where
  "http_get E url timeout =
     andthen (call E (HttpGet url timeout))
       (\<lambda>r. case r of RHttp code body \<Rightarrow> ret (code, body) | _ \<Rightarrow> throw bad_reply)"

definition client_create_snapshot ::
  "'s env \<Rightarrow> string \<Rightarrow> bool \<Rightarrow> ('s, SnapshotDescription option) act" where
  "client_create_snapshot E c wait =
     andthen (call E (CreateSnapshot c wait))
       (\<lambda>r. case r of RSnapshot sn \<Rightarrow> ret sn | _ \<Rightarrow> throw bad_reply)"

definition client_list_snapshots :: "'s env \<Rightarrow> string \<Rightarrow> ('s, SnapshotDescription list) act" where
  "client_list_snapshots E c =
     andthen (call E (ListSnapshots c))
       (\<lambda>r. case r of RSnapshots sns \<Rightarrow> ret sns | _ \<Rightarrow> throw bad_reply)"

text \<open>
  The polling loop of \<open>optimize_collection\<close>: sleep two seconds, look the collection up,
  stop when the optimizer reports \<open>ok\<close>; the \<open>else\<close> of the \<open>while\<close> runs when sixty
  seconds have been waited.
\<close>

function wait_loop :: "'s env \<Rightarrow> string \<Rightarrow> int \<Rightarrow> dict \<Rightarrow> ('s, dict) act" where
  "wait_loop E collection waited result w =
     (if waited < 60 then
        (case call E (Sleep 2) w of
           (Inl e, w1) \<Rightarrow> (Inl e, w1)
         | (Inr u, w1) \<Rightarrow>
             (case client_get_collection E collection w1 of
                (Inl e, w2) \<Rightarrow> (Inl e, w2)
              | (Inr info_after, w2) \<Rightarrow>
                  (if ci_optimizer info_after = Some (Some ''ok'')
                   then (Inr (AList.update ''optimization_complete'' (JBool True)
                            (AList.update ''segments_after'' (opt_int (segments_count info_after))
                               result)), w2)
                   else wait_loop E collection (waited + 2) result w2)))
      else (Inr (AList.update ''message'' (JStr ''Optimization still in progress'')
                  (AList.update ''optimization_complete'' (JBool False) result)), w))"
  by pat_completeness auto
termination
  by (relation "measure (\<lambda>(E, collection, waited, result, w). nat (60 - waited))") auto

definition optimize_collection :: "'s env \<Rightarrow> string \<Rightarrow> bool \<Rightarrow> ('s, envelope) act" where
  "optimize_collection E collection wait =
     catch
       (andthen (get_client E Admin_py) (\<lambda>u.
        andthen (client_get_collection E collection) (\<lambda>info_before.
        andthen (client_do E (UpdateCollectionOptimizer collection
                   (OptimizersConfigDiff (Some 0) None))) (\<lambda>u.
          (let result = [(''collection'', JStr collection),
                         (''operation'', JStr ''optimize''),
                         (''segments_before'', opt_int (segments_count info_before)),
                         (''optimization_triggered'', JBool True)]
           in if wait
              then andthen (wait_loop E collection 0 result) (\<lambda>r. ret (ToolResponse (JDict r)))
              else ret (ToolResponse (JDict result)))))))
       (handler ''Failed to optimize collection'' collection)"

definition create_snapshot :: "'s env \<Rightarrow> string \<Rightarrow> bool \<Rightarrow> ('s, envelope) act" where
  "create_snapshot E collection wait =
     catch
       (andthen (get_client E Admin_py) (\<lambda>u.
        andthen (client_get_collection E collection) (\<lambda>info.
        andthen (client_create_snapshot E collection wait) (\<lambda>snapshot.
        andthen (utcnow E) (\<lambda>now.
          ret (ToolResponse (JDict
            [(''collection'', JStr collection),
             (''snapshot_name'',
                JStr (case snapshot of Some sn \<Rightarrow> sn_name sn | None \<Rightarrow> ''pending'')),
             (''points_count'', opt_int (points_count info)),
             (''created_at'', JStr now),
             (''status'',
                JStr (if wait \<and> snapshot \<noteq> None then ''completed'' else ''in_progress''))])))))))
       (handler ''Failed to create snapshot'' collection)"

definition snapshot_entry :: "SnapshotDescription \<Rightarrow> json" where
  "snapshot_entry snap =
     JDict [(''name'', JStr (sn_name snap)),
            (''size_bytes'', opt_int (sn_size snap)),
            (''creation_time'', opt_str (sn_creation_time snap))]"

definition list_snapshots :: "'s env \<Rightarrow> string \<Rightarrow> ('s, envelope) act" where
  "list_snapshots E collection =
     catch
       (andthen (get_client E Admin_py) (\<lambda>u.
        andthen (client_list_snapshots E collection) (\<lambda>snapshots.
          ret (ToolResponse (JDict
            [(''collection'', JStr collection),
             (''snapshots'', JList (map snapshot_entry snapshots)),
             (''count'', JInt (int (length snapshots)))])))))
       (handler ''Failed to list snapshots'' collection)"

text \<open>The request to the root of the engine in \<open>get_cluster_info\<close>; its inner handler
  gives the empty dictionary.\<close>

definition root_info :: "'s env \<Rightarrow> ('s, json) act" where
  "root_info E w =
     (case http_get E (qdrant_url E @ ''/'') 10 w of
        (Inl e, w') \<Rightarrow> (Inr (JDict []), w')
      | (Inr (code, body), w') \<Rightarrow>
          (if code = 200
           then (case body of Some j \<Rightarrow> (Inr j, w') | None \<Rightarrow> (Inr (JDict []), w'))
           else (Inr (JDict []), w')))"

definition int_or_0 :: "int option \<Rightarrow> int" where
  "int_or_0 n = (case n of None \<Rightarrow> 0 | Some k \<Rightarrow> k)"

fun cluster_loop ::
  "'s env \<Rightarrow> string list \<Rightarrow> int \<times> int \<times> json list \<Rightarrow> ('s, int \<times> int \<times> json list) act" where
  "cluster_loop E [] acc w = (Inr acc, w)"
| "cluster_loop E (name # names) (total_points, total_vectors, summaries) w =
     (case client_get_collection E name w of
        (Inl e, w') \<Rightarrow>
          cluster_loop E names
            (total_points, total_vectors,
             summaries @ [JDict [(''name'', JStr name), (''points'', JInt 0),
                                 (''status'', JStr ''error'')]]) w'
      | (Inr info, w') \<Rightarrow>
          cluster_loop E names
            (total_points + int_or_0 (points_count info),
             total_vectors + int_or_0 (vectors_count info),
             summaries @ [JDict [(''name'', JStr name),
                                 (''points'', opt_int (points_count info)),
                                 (''status'', status_value info)]]) w')"

text \<open>\<open>root_info.get(key, default)\<close>, on what the root answered.\<close>

definition get_or :: "json \<Rightarrow> string \<Rightarrow> string \<Rightarrow> exn + json" where
  "get_or j key dflt =
     (case j of
        JDict d \<Rightarrow> Inr (case map_of d key of Some v \<Rightarrow> v | None \<Rightarrow> JStr dflt)
      | _ \<Rightarrow> Inl (AttributeError ''object has no attribute get''))"

definition get_cluster_info :: "'s env \<Rightarrow> ('s, envelope) act" where
  "get_cluster_info E =
     catch
       (andthen (get_client E Admin_py) (\<lambda>u.
        andthen (root_info E) (\<lambda>root.
        andthen (client_get_collections E) (\<lambda>names.
        andthen (cluster_loop E names (0, 0, [])) (\<lambda>(total_points, total_vectors, summaries).
        andthen (lift (get_or root ''version'' ''unknown'')) (\<lambda>version.
        andthen (lift (get_or root ''title'' ''Qdrant'')) (\<lambda>title.
          ret (ToolResponse (JDict
            [(''url'', JStr (qdrant_url E)),
             (''version'', version),
             (''title'', title),
             (''collections_count'', JInt (int (length names))),
             (''total_points'', JInt total_points),
             (''total_vectors'', JInt total_vectors),
             (''collections'', JList summaries)])))))))))
       (handler_plain ''Failed to get cluster info'')"

text \<open>The second probe of \<open>health_check\<close>: the listing and the clock in the \<open>try\<close>, the
  clock again in its handler.\<close>

definition api_probe :: "'s env \<Rightarrow> float \<Rightarrow> ('s, bool \<times> float) act" where
  "api_probe E api_start w =
     (case andthen (client_get_collections E) (\<lambda>names. time E) w of
        (Inr t, w') \<Rightarrow> (Inr (True, elapsed_ms E api_start t), w')
      | (Inl e, w') \<Rightarrow>
          (case time E w' of
             (Inl e', w'') \<Rightarrow> (Inl e', w'')
           | (Inr t, w'') \<Rightarrow> (Inr (False, elapsed_ms E api_start t), w'')))"

definition health_check :: "'s env \<Rightarrow> ('s, envelope) act" where
  "health_check E =
     catch
       (andthen (time E) (\<lambda>start_time. (\<lambda>w.
          case andthen (http_get E (qdrant_url E @ ''/'') 5)
                 (\<lambda>(code, body). andthen (time E) (\<lambda>t. ret (code = 200, elapsed_ms E start_time t))) w of
            (Inl e, w') \<Rightarrow>
              (Inr (ToolResponse (JDict
                 [(''status'', JStr ''unhealthy''),
                  (''http_ok'', JBool False),
                  (''error'', JStr (str_exn e)),
                  (''url'', JStr (qdrant_url E))])), w')
          | (Inr (http_ok, http_latency_ms), w') \<Rightarrow>
              (andthen (get_client E Admin_py) (\<lambda>u.
               andthen (time E) (\<lambda>api_start.
               andthen (api_probe E api_start) (\<lambda>(api_ok, api_latency_ms).
               andthen (utcnow E) (\<lambda>now.
                 ret (ToolResponse (JDict
                   [(''status'', JStr (if http_ok \<and> api_ok then ''healthy'' else ''degraded'')),
                    (''url'', JStr (qdrant_url E)),
                    (''http_ok'', JBool http_ok),
                    (''http_latency_ms'', JFloat http_latency_ms),
                    (''api_ok'', JBool api_ok),
                    (''api_latency_ms'', JFloat api_latency_ms),
                    (''timestamp'', JStr now)]))))))) w')))
       (handler_plain ''Health check failed'')"

text \<open>What the invocation boundary receives from a tool: an envelope with the status of
  its class, not an exception.\<close>

definition returns_envelope :: "('s, envelope) act \<Rightarrow> 's world \<Rightarrow> bool" where
  "returns_envelope tool w =
     (case fst (tool w) of
        Inl e \<Rightarrow> False
      | Inr (ToolResponse d) \<Rightarrow> status (ToolResponse d) = ''success''
      | Inr (ToolError m) \<Rightarrow> status (ToolError m) = ''error'')"

section \<open>A reference world\<close>

text \<open>
  An in-memory engine and a \<open>uuid\<close> module to run the tools on concrete inputs: collections
  by name, each holding its vector configuration and its points by identifier. It answers
  the collection and point requests; filters, search and snapshots are not covered and raise.
\<close>

datatype stored = Stored (st_vector: json) (st_payload: dict)

datatype coll =
  Coll (coll_vectors: "(string \<times> VectorParams) list") (coll_points: "(string \<times> stored) list")

type_synonym mem = "(string \<times> coll) list"

definition not_found :: "string \<Rightarrow> exn" where
  "not_found n = UnexpectedResponse 404 (''Not found: Collection '' @ n)"

definition unsupported :: exn where
  "unsupported = OtherException ''not supported by the reference engine''"

fun distance_value :: "Distance \<Rightarrow> string" where
  "distance_value COSINE = ''Cosine''"
| "distance_value EUCLID = ''Euclid''"
| "distance_value DOT = ''Dot''"
| "distance_value MANHATTAN = ''Manhattan''"

definition mem_info :: "coll \<Rightarrow> CollectionInfo" where
  "mem_info c =
     CollectionInfo (Some ''green'') (Some (int (length (coll_points c))))
       (Some (int (length (coll_points c)))) (Some (int (length (coll_points c)))) (Some 1)
       (NamedVectors (map (\<lambda>(n, p). (n, VectorParamsInfo (vp_size p)
            (Some (distance_value (vp_distance p))) (Some (vp_on_disk p)))) (coll_vectors c)))
       (Some (HnswInfo 16 100 10000)) (Some (Some ''ok'')) (Some [])"

definition mem_record :: "bool \<Rightarrow> bool \<Rightarrow> string \<times> stored \<Rightarrow> Record" where
  "mem_record wp wv = (\<lambda>(i, x).
     Record (StrId i) (if wp then Some (st_payload x) else None)
       (if wv then Some (st_vector x) else None))"

definition mem_put :: "(string \<times> stored) list \<Rightarrow> PointStruct \<Rightarrow> (string \<times> stored) list" where
  "mem_put pts p = AList.update (ps_id p) (Stored (ps_vector p) (ps_payload p)) pts"

definition mem_scroll ::
  "(string \<times> stored) list \<Rightarrow> nat \<Rightarrow> string option \<Rightarrow> bool \<Rightarrow> bool \<Rightarrow> reply" where
  "mem_scroll pts limit offset wp wv =
     (let rest = (case offset of None \<Rightarrow> pts | Some i \<Rightarrow> dropWhile (\<lambda>(j, x). j \<noteq> i) pts)
      in RScroll (map (mem_record wp wv) (take limit rest))
           (case drop limit rest of [] \<Rightarrow> None | (j, x) # others \<Rightarrow> Some (StrId j)))"

fun mem_io :: "request \<Rightarrow> mem \<Rightarrow> (exn + reply) \<times> mem" where
  "mem_io GetCollections s = (Inr (RCollections (map fst s)), s)"
| "mem_io (GetCollection n) s =
     (case map_of s n of
        None \<Rightarrow> (Inl (not_found n), s)
      | Some c \<Rightarrow> (Inr (RInfo (mem_info c)), s))"
| "mem_io (CreateCollection n vs sp h) s =
     (case map_of s n of
        Some c \<Rightarrow> (Inl (UnexpectedResponse 409 (''Collection already exists: '' @ n)), s)
      | None \<Rightarrow> (Inr RDone, s @ [(n, Coll vs [])]))"
| "mem_io (DeleteCollection n) s = (Inr RDone, AList.delete n s)"
| "mem_io (Upsert n ps wait) s =
     (case map_of s n of
        None \<Rightarrow> (Inl (not_found n), s)
      | Some c \<Rightarrow>
          (Inr RDone, AList.update n (Coll (coll_vectors c) (foldl mem_put (coll_points c) ps)) s))"
| "mem_io (Retrieve n ids wp wv) s =
     (case map_of s n of
        None \<Rightarrow> (Inl (not_found n), s)
      | Some c \<Rightarrow>
          (Inr (RRecords (map (mem_record wp wv)
                  (filter (\<lambda>(i, x). i \<in> set ids) (coll_points c)))), s))"
| "mem_io (Delete n sel wait) s =
     (case map_of s n of
        None \<Rightarrow> (Inl (not_found n), s)
      | Some c \<Rightarrow>
          (case sel of
             Some (PointIdsList ids) \<Rightarrow>
               (Inr RDone,
                AList.update n (Coll (coll_vectors c)
                  (filter (\<lambda>(i, x). i \<notin> set ids) (coll_points c))) s)
           | Some (FilterSelector f) \<Rightarrow> (Inl unsupported, s)
           | None \<Rightarrow> (Inl (ValueError ''Unsupported points selector type''), s)))"
| "mem_io (Count n f exact) s =
     (case map_of s n of
        None \<Rightarrow> (Inl (not_found n), s)
      | Some c \<Rightarrow>
          (case f of
             None \<Rightarrow> (Inr (RCount (int (length (coll_points c)))), s)
           | Some x \<Rightarrow> (Inl unsupported, s)))"
| "mem_io (Scroll n limit offset f wp wv) s =
     (case map_of s n of
        None \<Rightarrow> (Inl (not_found n), s)
      | Some c \<Rightarrow>
          (case f of
             None \<Rightarrow> (Inr (mem_scroll (coll_points c) (nat limit) offset wp wv), s)
           | Some x \<Rightarrow> (Inl unsupported, s)))"
| "mem_io rq s = (Inl unsupported, s)"

text \<open>
  The \<open>uuid\<close> module on strings held as UTF-8 bytes, a lone surrogate in its three-byte form
  (\<open>ED A0..BF xx\<close>). \<open>UUID\<close> accepts 32 hexadecimal digits with or without hyphens and raises
  \<open>ValueError\<close> otherwise. \<open>uuid5\<close> encodes the name as UTF-8 first, which raises on a lone
  surrogate, and hashes it with the DNS namespace: the digests are the recorded answers of
  CPython for the names used below.
\<close>

definition is_hex :: "char \<Rightarrow> bool" where
  "is_hex c = (c \<in> set ''0123456789abcdefABCDEF'')"

definition ref_UUID :: "string \<Rightarrow> exn + unit" where
  "ref_UUID s =
     (let hex = filter (\<lambda>c. c \<noteq> CHR ''-'') s
      in if length hex = 32 \<and> list_all is_hex hex then Inr ()
         else Inl (ValueError ''badly formed hexadecimal UUID string''))"

fun has_surrogate :: "string \<Rightarrow> bool" where
  "has_surrogate (a # b # r) =
     ((a = CHR 0xED \<and> (0xA0::nat) \<le> of_char b) \<or> has_surrogate (b # r))"
| "has_surrogate r = False"

definition uuid5_recorded :: "(string \<times> string) list" where
  "uuid5_recorded =
     [(''doc-1'', ''eea9cb72-744e-5814-a929-652d970d86ac''),
      (''doc-2'', ''2652c3f2-4088-5a28-b1ae-5ff2fd825971''),
      (''a'', ''4f3f2898-69e3-5a0d-820a-c4e87987dbce''),
      (''b'', ''3f10dbe8-4cbd-5e31-9b1f-af0cb9dda9cf'')]"

definition ref_uuid5 :: "string \<Rightarrow> exn + string" where
  "ref_uuid5 name =
     (if has_surrogate name
      then Inl (UnicodeEncodeError ''utf-8 codec cannot encode character: surrogates not allowed'')
      else (case map_of uuid5_recorded name of
              Some u \<Rightarrow> Inr u
            | None \<Rightarrow> Inl (OtherException ''digest not recorded'')))"

fun ref_repr :: "json \<Rightarrow> string" where
  "ref_repr JNull = ''None''"
| "ref_repr (JBool b) = (if b then ''True'' else ''False'')"
| "ref_repr (JStr s) = s"
| "ref_repr v = ''<object>''"

definition ref_env :: "mem env" where
  "ref_env =
     \<lparr>connect = Inr (), io = mem_io, uuid_UUID = ref_UUID, uuid_uuid5 = ref_uuid5,
      py_repr = ref_repr, pydantic = (\<lambda>m. None), qdrant_url = ''http://qdrant-unity:6333'',
      elapsed_ms = (\<lambda>a b. b - a)\<rparr>"

definition world0 :: "mem \<Rightarrow> mem world" where
  "world0 s = \<lparr>handles = [], trace = [], engine = s\<rparr>"

definition kb :: mem where
  "kb = [(''kb'', Coll [(''text-dense'', VectorParams 4 COSINE False)] [])]"

definition doc1 :: dict where
  "doc1 = [(''id'', JStr ''doc-1''), (''vector'', JList [JInt 1, JInt 0, JInt 0, JInt 0])]"


definition doc1_uuid :: string where
  "doc1_uuid = ''eea9cb72-744e-5814-a929-652d970d86ac''"


definition doc2 :: dict where
  "doc2 = [(''id'', JStr ''doc-2''),
           (''vector'', JDict [(''text-dense'', JList [JInt 0, JInt 1, JInt 0, JInt 0])]),
           (''payload'', JDict [(''title'', JStr ''second'')])]"

definition doc2_uuid :: string where
  "doc2_uuid = ''2652c3f2-4088-5a28-b1ae-5ff2fd825971''"

definition doc1_struct :: PointStruct where
  "doc1_struct =
     PointStruct doc1_uuid (JDict [(''text-dense'', JList [JInt 1, JInt 0, JInt 0, JInt 0])])
       [(''original_id'', JStr ''doc-1'')]"

definition doc2_struct :: PointStruct where
  "doc2_struct =
     PointStruct doc2_uuid (JDict [(''text-dense'', JList [JInt 0, JInt 1, JInt 0, JInt 0])])
       [(''title'', JStr ''second''), (''original_id'', JStr ''doc-2'')]"

section \<open>Properties\<close>

lemmas act_defs =
  ret_def throw_def andthen_def lift_def catch_def call_def client_do_def get_client_def

lemma ref_env_sel:
  "connect ref_env = Inr ()" "io ref_env = mem_io" "uuid_UUID ref_env = ref_UUID"
  "uuid_uuid5 ref_env = ref_uuid5" "py_repr ref_env = ref_repr"
  "pydantic ref_env = (\<lambda>m. None)"
  by (simp_all add: ref_env_def)

lemma world0_sel: "handles (world0 s) = []" "trace (world0 s) = []" "engine (world0 s) = s"
  by (simp_all add: world0_def)

lemmas ref_defs = ref_env_sel world0_def kb_def mem_info_def

lemma handler_is_error: "\<exists>m. handler what c e = ToolError m"
  by (cases e) (auto simp: handler_def)

lemma get_client_result:
  "(\<exists>hs. get_client E m w = (Inr (), w\<lparr>handles := hs\<rparr>))
   \<or> (\<exists>e. get_client E m w = (Inl e, w) \<and> m \<notin> set (handles w) \<and> connect E = Inl e)"
proof (cases "m \<in> set (handles w)")
  case True
  then have "get_client E m w = (Inr (), w\<lparr>handles := handles w\<rparr>)"
    by (simp add: get_client_def)
  then show ?thesis by blast
next
  case False
  then show ?thesis
    by (cases "connect E") (auto simp: get_client_def)
qed

lemma get_client_ok:
  assumes "m \<in> set (handles w) \<or> connect E = Inr ()"
  shows "\<exists>hs. get_client E m w = (Inr (), w\<lparr>handles := hs\<rparr>)"
  using assms get_client_result [of E m w] by auto

lemma collect_Inr:
  "collect f xs = Inr ys \<Longrightarrow> list_all2 (\<lambda>x y. f x = Inr y) xs ys"
  by (induction xs arbitrary: ys) (auto split: sum.splits)


lemma upsert_point_early:
  "upsert_point E p = Inr (Inl r) \<Longrightarrow> r = ToolError each_point_msg"
  by (auto simp: upsert_point_def each_point_msg_def Let_def
        split: option.splits sum.splits json.splits)

lemma upsert_point_Inr:
  assumes "upsert_point E p = Inr (Inr q)"
  shows "\<exists>pid vec. map_of p ''id'' = Some pid \<and> map_of p ''vector'' = Some vec
           \<and> to_uuid E pid = Inr (ps_id q)
           \<and> ps_vector q = (case vec of JList xs \<Rightarrow> JDict [(''text-dense'', vec)] | _ \<Rightarrow> vec)
           \<and> map_of (ps_payload q) ''original_id'' = Some pid"
  using assms
  by (auto simp: upsert_point_def Let_def update_conv'
        split: option.splits sum.splits json.splits)

lemma upsert_loop_early:
  "upsert_loop E ps acc = Inr (Inl r) \<Longrightarrow> r = ToolError each_point_msg"
  by (induction ps arbitrary: acc) (auto split: sum.splits dest: upsert_point_early)



lemma upsert_loop_Inr:
  "upsert_loop E ps acc = Inr (Inr qs) \<Longrightarrow>
     \<exists>qs'. qs = acc @ qs' \<and> list_all2 (\<lambda>p q. upsert_point E p = Inr (Inr q)) ps qs'"
proof (induction ps arbitrary: acc)
  case Nil
  then show ?case by simp
next
  case (Cons a ps)
  then obtain q where q: "upsert_point E a = Inr (Inr q)"
    and r: "upsert_loop E ps (acc @ [q]) = Inr (Inr qs)"
    by (auto split: sum.splits)
  from Cons.IH [OF r] obtain qs' where
    "qs = (acc @ [q]) @ qs'" "list_all2 (\<lambda>p q. upsert_point E p = Inr (Inr q)) ps qs'"
    by blast
  then have "qs = acc @ (q # qs') \<and> list_all2 (\<lambda>p q. upsert_point E p = Inr (Inr q)) (a # ps) (q # qs')"
    using q by simp
  then show ?case by blast
qed

text \<open>What upsert_points does, by the outcome of the loop.\<close>

lemma upsert_points_no_write:
  assumes "\<And>qs. upsert_loop E points [] \<noteq> Inr (Inr qs)"
  shows "(\<exists>msg. fst (upsert_points E c points wait w) = Inr (ToolError msg))
       \<and> trace (snd (upsert_points E c points wait w)) = trace w
       \<and> engine (snd (upsert_points E c points wait w)) = engine w"
proof -
  consider (fail) e where "get_client E Points_py w = (Inl e, w)"
    | (ok) hs where "get_client E Points_py w = (Inr (), w\<lparr>handles := hs\<rparr>)"
    using get_client_result [of E Points_py w] by blast
  then show ?thesis
  proof cases
    case fail
    then show ?thesis
      using handler_is_error [of "''Failed to upsert points''" c e]
      by (auto simp: upsert_points_def andthen_def catch_def)
  next
    case ok
    show ?thesis
    proof (cases "upsert_loop E points []")
      case (Inl e)
      then show ?thesis
        using ok handler_is_error [of "''Failed to upsert points''" c e]
        by (auto simp: upsert_points_def andthen_def catch_def ret_def lift_def)
    next
      case (Inr r)
      then obtain early where "r = Inl early"
        using assms by (cases r) auto
      then show ?thesis
        using ok Inr upsert_loop_early [of E points "[]" early]
        by (auto simp: upsert_points_def andthen_def catch_def ret_def lift_def)
    qed
  qed
qed

lemma upsert_points_write:
  assumes "upsert_loop E points [] = Inr (Inr qs)" and "points \<noteq> []"
    and "get_client E Points_py w = (Inr (), w\<lparr>handles := hs\<rparr>)"
  shows "trace (snd (upsert_points E c points wait w)) = trace w @ [Upsert c qs wait]"
  using assms
  by (auto simp: upsert_points_def andthen_def catch_def ret_def lift_def call_def client_do_def
        split: prod.splits sum.splits)

lemma upsert_points_success:
  assumes "fst (upsert_points E c points wait w) = Inr (ToolResponse d)"
  shows "\<exists>qs. upsert_loop E points [] = Inr (Inr qs)
           \<and> trace (snd (upsert_points E c points wait w)) = trace w @ [Upsert c qs wait]"
proof -
  obtain qs where qs: "upsert_loop E points [] = Inr (Inr qs)"
    using upsert_points_no_write [of E points c wait w] assms by auto
  have ne: "points \<noteq> []"
  proof
    assume "points = []"
    then have "\<exists>m. fst (upsert_points E c points wait w) = Inr (ToolError m)"
      using get_client_result [of E Points_py w] handler_is_error [of "''Failed to upsert points''" c]
      by (auto simp: upsert_points_def andthen_def catch_def ret_def)
    then show False using assms by auto
  qed
  obtain hs where "get_client E Points_py w = (Inr (), w\<lparr>handles := hs\<rparr>)"
  proof -
    have "\<not> (\<exists>e. get_client E Points_py w = (Inl e, w))"
    proof
      assume "\<exists>e. get_client E Points_py w = (Inl e, w)"
      then obtain e where "get_client E Points_py w = (Inl e, w)" by blast
      then have "\<exists>m. fst (upsert_points E c points wait w) = Inr (ToolError m)"
        using handler_is_error [of "''Failed to upsert points''" c e]
        by (auto simp: upsert_points_def andthen_def catch_def)
      then show False using assms by auto
    qed
    then show ?thesis
      using get_client_result [of E Points_py w] that by blast
  qed
  then show ?thesis
    using upsert_points_write [OF qs ne] qs by blast
qed

lemma to_uuid_doc1: "to_uuid ref_env (JStr ''doc-1'') = Inr doc1_uuid"
  by (simp add: to_uuid_def str_of_def ref_env_sel ref_UUID_def ref_uuid5_def uuid5_recorded_def
        doc1_uuid_def)

lemma upsert_point_doc1:
  "upsert_point ref_env doc1 =
     Inr (Inr (PointStruct doc1_uuid (JDict [(''text-dense'', JList [JInt 1, JInt 0, JInt 0, JInt 0])])
       [(''original_id'', JStr ''doc-1'')]))"
  by (simp add: upsert_point_def doc1_def to_uuid_doc1 ref_env_sel)

lemma upsert_doc1:
  "upsert_points ref_env ''kb'' [doc1] True (world0 kb) =
     (Inr (ToolResponse (JDict [(''collection'', JStr ''kb''), (''upserted_count'', JInt 1),
        (''operation'', JStr ''upsert'')])),
      \<lparr>handles = [Points_py],
       trace = [Upsert ''kb'' [PointStruct doc1_uuid
                  (JDict [(''text-dense'', JList [JInt 1, JInt 0, JInt 0, JInt 0])])
                  [(''original_id'', JStr ''doc-1'')]] True],
       engine = [(''kb'', Coll [(''text-dense'', VectorParams 4 COSINE False)]
                  [(doc1_uuid, Stored (JDict [(''text-dense'', JList [JInt 1, JInt 0, JInt 0, JInt 0])])
                     [(''original_id'', JStr ''doc-1'')])])]\<rparr>)"
  by (simp add: upsert_points_def act_defs upsert_point_doc1 ref_defs mem_put_def)

lemma collect_doc1: "collect (to_uuid ref_env) [JStr ''doc-1''] = Inr [doc1_uuid]"
  by (simp add: to_uuid_doc1)

lemma distance_enum_cases:
  "distance_enum d =
     (if lower d = ''euclid'' then EUCLID else if lower d = ''dot'' then DOT else COSINE)"
  by (simp add: distance_enum_def distance_map_def)

lemma update_nonempty: "AList.update k v al \<noteq> []"
  by (cases al) auto

lemma filter_absent: "u \<notin> fst ` set pts \<Longrightarrow> filter (\<lambda>(i, x). i = u) pts = []"
  by (induction pts) auto

lemma filter_update_absent:
  "u \<notin> fst ` set pts \<Longrightarrow> filter (\<lambda>(i, x). i = u) (AList.update u v pts) = [(u, v)]"
  by (induction pts) auto

lemma filter_update_distinct:
  "distinct (map fst pts) \<Longrightarrow> filter (\<lambda>(i, x). i = u) (AList.update u v pts) = [(u, v)]"
proof (induction pts)
  case Nil
  then show ?case by simp
next
  case (Cons a pts)
  show ?case
  proof (cases "fst a = u")
    case True
    then have "u \<notin> fst ` set pts" using Cons.prems by auto
    then show ?thesis using True by (simp add: filter_absent)
  next
    case False
    then show ?thesis using Cons by (auto simp: case_prod_beta)
  qed
qed

lemma get_client_ok':
  assumes "m \<in> set (handles w) \<or> connect E = Inr ()"
  shows "\<exists>hs. get_client E m w = (Inr (), w\<lparr>handles := hs\<rparr>) \<and> m \<in> set hs"
proof (cases "m \<in> set (handles w)")
  case True
  then have "get_client E m w = (Inr (), w\<lparr>handles := handles w\<rparr>)"
    by (simp add: get_client_def)
  then show ?thesis using True by blast
next
  case False
  then have "get_client E m w = (Inr (), w\<lparr>handles := m # handles w\<rparr>)"
    using assms by (simp add: get_client_def)
  then show ?thesis by auto
qed

lemma upsert_points_mem:
  assumes "io E = mem_io" and "map_of (engine w) c = Some col"
    and "get_client E Points_py w = (Inr (), w\<lparr>handles := hs\<rparr>)"
    and "upsert_loop E points [] = Inr (Inr qs)" and "points \<noteq> []"
  shows "upsert_points E c points wait w =
     (Inr (ToolResponse (JDict
        [(''collection'', JStr c), (''upserted_count'', JInt (int (length qs))),
         (''operation'', JStr ''upsert'')])),
      w\<lparr>handles := hs, trace := trace w @ [Upsert c qs wait],
        engine := AList.update c (Coll (coll_vectors col) (foldl mem_put (coll_points col) qs))
                    (engine w)\<rparr>)"
  using assms
  by (simp add: upsert_points_def andthen_def catch_def ret_def lift_def call_def client_do_def)

lemma get_points_mem:
  assumes "io E = mem_io" and "map_of (engine w) c = Some col" and "Points_py \<in> set (handles w)"
    and "to_uuid E pid = Inr u"
    and "filter (\<lambda>(i, x). i = u) (coll_points col) = [(u, Stored vec pl)]" and "pl \<noteq> []"
  shows "fst (get_points E c [pid] True False w) =
     Inr (ToolResponse (JDict
       [(''collection'', JStr c),
        (''points'', JList [JDict [(''id'', JStr u), (''payload'', JDict pl)]]),
        (''found_count'', JInt 1), (''requested_count'', JInt 1)]))"
  using assms
  by (simp add: get_points_def andthen_def catch_def ret_def lift_def call_def client_retrieve_def
        get_client_def mem_record_def point_data_def str_id_def truthy_opt_dict_def truthy_opt_def)

lemma sent_as_upsert_point:
  assumes "sent_as E p q"
  shows "upsert_point E p = Inr (Inr q)"
proof -
  from assms obtain pid vec pl0 where
    a: "map_of p ''id'' = Some pid" "map_of p ''vector'' = Some vec"
    and pl: "map_of p ''payload'' = None \<and> pl0 = [] \<or> map_of p ''payload'' = Some (JDict pl0)"
    and u: "to_uuid E pid = Inr (ps_id q)"
    and v: "ps_vector q = (case vec of JList xs \<Rightarrow> JDict [(''text-dense'', JList xs)] | _ \<Rightarrow> vec)"
    and py: "ps_payload q = AList.update ''original_id'' pid pl0"
    and ok: "pydantic E (MPointStruct (ps_id q) (ps_vector q) (ps_payload q)) = None"
    unfolding sent_as_def by blast
  have q: "q = PointStruct (ps_id q) (ps_vector q) (ps_payload q)"
    by simp
  have v': "(case vec of JList xs \<Rightarrow> JDict [(''text-dense'', vec)] | _ \<Rightarrow> vec) = ps_vector q"
    using v by (cases vec) auto
  have p': "(case map_of p ''payload'' of None \<Rightarrow> JDict [] | Some x \<Rightarrow> x) = JDict pl0"
    using pl by auto
  show ?thesis
    using a u ok q
    by (simp add: upsert_point_def v' p' py [symmetric])
qed

lemma sent_as_upsert_loop:
  "list_all2 (sent_as E) ps qs \<Longrightarrow> upsert_loop E ps acc = Inr (Inr (acc @ qs))"
proof (induction ps arbitrary: qs acc)
  case Nil
  then show ?case by simp
next
  case (Cons p ps)
  then obtain q qs' where qs: "qs = q # qs'" and q: "sent_as E p q"
    and rest: "list_all2 (sent_as E) ps qs'"
    by (auto simp: list_all2_Cons1)
  show ?case
    using sent_as_upsert_point [OF q] Cons.IH [OF rest, of "acc @ [q]"] qs by simp
qed

lemma upsert_points_sends:
  assumes "Points_py \<in> set (handles w) \<or> connect E = Inr ()"
    and "points \<noteq> []" and "list_all2 (sent_as E) points qs"
  shows "trace (snd (upsert_points E c points wait w)) = trace w @ [Upsert c qs wait]"
    and "fst (upsert_points E c points wait w) =
           Inr (case fst (io E (Upsert c qs wait) (engine w)) of
                  Inl e \<Rightarrow> handler ''Failed to upsert points'' c e
                | Inr r \<Rightarrow> ToolResponse (JDict
                    [(''collection'', JStr c),
                     (''upserted_count'', JInt (int (length points))),
                     (''operation'', JStr ''upsert'')]))"
proof -
  obtain hs where hs: "get_client E Points_py w = (Inr (), w\<lparr>handles := hs\<rparr>)"
    using get_client_ok [OF assms(1)] by blast
  have loop: "upsert_loop E points [] = Inr (Inr qs)"
    using sent_as_upsert_loop [OF assms(3), of "[]"] by simp
  have len: "length qs = length points"
    using assms(3) by (simp add: list_all2_lengthD)
  show "trace (snd (upsert_points E c points wait w)) = trace w @ [Upsert c qs wait]"
    using upsert_points_write [OF loop assms(2) hs] .
  show "fst (upsert_points E c points wait w) =
           Inr (case fst (io E (Upsert c qs wait) (engine w)) of
                  Inl e \<Rightarrow> handler ''Failed to upsert points'' c e
                | Inr r \<Rightarrow> ToolResponse (JDict
                    [(''collection'', JStr c),
                     (''upserted_count'', JInt (int (length points))),
                     (''operation'', JStr ''upsert'')]))"
    using hs loop assms(2) len
    by (auto simp: upsert_points_def andthen_def catch_def ret_def lift_def call_def client_do_def
          split: prod.splits sum.splits)
qed

lemma filter_key_distinct:
  "distinct (map fst al) \<Longrightarrow> map_of al u = Some v \<Longrightarrow> filter (\<lambda>(i, x). i = u) al = [(u, v)]"
proof (induction al)
  case Nil
  then show ?case by simp
next
  case (Cons a al)
  show ?case
  proof (cases "fst a = u")
    case True
    then have "u \<notin> fst ` set al" using Cons.prems(1) by auto
    then show ?thesis using True Cons.prems(2) by (cases a) (simp add: filter_absent)
  next
    case False
    then show ?thesis using Cons by (cases a) auto
  qed
qed

lemma distinct_mem_put: "distinct (map fst pts) \<Longrightarrow> distinct (map fst (foldl mem_put pts qs))"
  by (induction qs arbitrary: pts) (simp_all add: mem_put_def distinct_update)

lemma map_of_mem_put_other:
  "u \<notin> ps_id ` set qs \<Longrightarrow> map_of (foldl mem_put pts qs) u = map_of pts u"
  by (induction qs arbitrary: pts) (auto simp: mem_put_def update_conv')

lemma map_of_mem_put:
  "distinct (map ps_id qs) \<Longrightarrow> q \<in> set qs \<Longrightarrow>
     map_of (foldl mem_put pts qs) (ps_id q) = Some (Stored (ps_vector q) (ps_payload q))"
proof (induction qs arbitrary: pts)
  case Nil
  then show ?case by simp
next
  case (Cons a qs)
  show ?case
  proof (cases "q = a")
    case True
    then have "ps_id a \<notin> ps_id ` set qs" using Cons.prems(1) by auto
    then show ?thesis
      using True by (simp add: map_of_mem_put_other) (simp add: mem_put_def update_conv')
  next
    case False
    then have "q \<in> set qs" using Cons.prems(2) by simp
    then show ?thesis using Cons.IH [of "mem_put pts a"] Cons.prems(1) by simp
  qed
qed

lemma to_uuid_doc2: "to_uuid ref_env (JStr ''doc-2'') = Inr doc2_uuid"
  by (simp add: to_uuid_def str_of_def ref_env_sel ref_UUID_def ref_uuid5_def uuid5_recorded_def
        doc2_uuid_def)

lemma sent_as_doc1: "sent_as ref_env doc1 doc1_struct"
  by (simp add: sent_as_def doc1_def doc1_struct_def to_uuid_doc1 ref_env_sel)

lemma sent_as_doc2: "sent_as ref_env doc2 doc2_struct"
  by (simp add: sent_as_def doc2_def doc2_struct_def to_uuid_doc2 ref_env_sel)

lemma client_ref: "Points_py \<in> set (handles (world0 kb)) \<or> connect ref_env = Inr ()"
  by (simp add: ref_env_sel)


subsection \<open>Deleting a collection\<close>



subsection \<open>Creating a collection\<close>

text \<open>
  Claim C8. When the listing fetched before the creation holds the name,
  \<open>create_collection\<close> returns the error saying that the collection already exists; the
  listing is the only request issued, so no creation reaches the engine and its state is the
  one the listing left.
\<close>

theorem create_collection_already_exists:
  assumes "Collections_py \<in> set (handles w) \<or> connect E = Inr ()"
    and "io E GetCollections (engine w) = (Inr (RCollections names), s1)"
    and "name \<in> set names"
  shows "fst (create_collection E name vector_size distance on_disk m ef sparse w) =
            Inr (ToolError (''Collection '' @ quoted name @ '' already exists''))
       \<and> trace (snd (create_collection E name vector_size distance on_disk m ef sparse w)) =
            trace w @ [GetCollections]
       \<and> engine (snd (create_collection E name vector_size distance on_disk m ef sparse w)) = s1"
  using assms
  by (auto simp: create_collection_def act_defs client_get_collections_def)

theorem create_collection_already_exists_witness:
  "fst (create_collection ref_env ''kb'' 4 ''cosine'' False 16 100 False (world0 kb)) =
      Inr (ToolError (''Collection '' @ quoted ''kb'' @ '' already exists''))
   \<and> trace (snd (create_collection ref_env ''kb'' 4 ''cosine'' False 16 100 False (world0 kb))) =
      [GetCollections]
   \<and> engine (snd (create_collection ref_env ''kb'' 4 ''cosine'' False 16 100 False (world0 kb))) = kb"
  using create_collection_already_exists [where E = ref_env and name = "''kb''" and w = "world0 kb"
      and names = "[''kb'']" and ?s1.0 = kb and vector_size = 4 and distance = "''cosine''"
      and on_disk = False and m = 16 and ef = 100 and sparse = False]
  by (simp add: ref_defs)

text \<open>
  Claim C9. The creation request carries the metric \<open>distance_enum\<close> gives: one of cosine,
  euclid and dot, chosen by the lowered string, and cosine for every other string; the
  request is issued whatever the string is.
\<close>

theorem create_collection_distance:
  assumes "Collections_py \<in> set (handles w) \<or> connect E = Inr ()"
    and "io E GetCollections (engine w) = (Inr (RCollections names), s1)"
    and "name \<notin> set names"
  shows "trace (snd (create_collection E name vector_size distance on_disk m ef sparse w)) =
            trace w @ [GetCollections,
              CreateCollection name
                [(''text-dense'', VectorParams vector_size (distance_enum distance) on_disk)]
                (if sparse then Some [(''text-sparse'', SparseVectorParams on_disk)] else None)
                (HnswConfigDiff (Some m) (Some ef))]
       \<and> distance_enum distance \<in> {COSINE, EUCLID, DOT}
       \<and> (lower distance \<notin> {''cosine'', ''euclid'', ''dot''} \<longrightarrow> distance_enum distance = COSINE)
       \<and> (lower distance = ''cosine'' \<longrightarrow> distance_enum distance = COSINE)
       \<and> (lower distance = ''euclid'' \<longrightarrow> distance_enum distance = EUCLID)
       \<and> (lower distance = ''dot'' \<longrightarrow> distance_enum distance = DOT)"
proof -
  have "trace (snd (create_collection E name vector_size distance on_disk m ef sparse w)) =
            trace w @ [GetCollections,
              CreateCollection name
                [(''text-dense'', VectorParams vector_size (distance_enum distance) on_disk)]
                (if sparse then Some [(''text-sparse'', SparseVectorParams on_disk)] else None)
                (HnswConfigDiff (Some m) (Some ef))]"
    using assms
    by (auto simp: create_collection_def act_defs client_get_collections_def Let_def
          split: prod.splits sum.splits)
  then show ?thesis
    by (simp add: distance_enum_cases)
qed

theorem create_collection_distance_witness:
  "trace (snd (create_collection ref_env ''docs'' 4 ''Manhattan'' False 16 100 False (world0 kb))) =
      [GetCollections,
       CreateCollection ''docs'' [(''text-dense'', VectorParams 4 COSINE False)] None
         (HnswConfigDiff (Some 16) (Some 100))]
   \<and> distance_enum ''Manhattan'' = COSINE \<and> distance_enum ''EUCLID'' = EUCLID
   \<and> distance_enum ''Dot'' = DOT"
proof -
  have d: "distance_enum ''Manhattan'' = COSINE" "distance_enum ''EUCLID'' = EUCLID"
    "distance_enum ''Dot'' = DOT"
    by code_simp+
  show ?thesis
    using create_collection_distance [where E = ref_env and name = "''docs''" and w = "world0 kb"
      and names = "[''kb'']" and ?s1.0 = kb and vector_size = 4 and distance = "''Manhattan''"
      and on_disk = False and m = 16 and ef = 100 and sparse = False]
    by (simp add: ref_defs d)
qed

subsection \<open>Deleting points\<close>

text \<open>
  Claim C10. With \<open>ids\<close> the empty list and no filter, \<open>delete_points\<close> passes the check of
  the two arguments against \<open>None\<close> and issues the deletion with the selector \<open>None\<close>; its
  result is what the handlers make of the engine's answer, never the precondition error.
\<close>

theorem delete_points_empty_ids:
  assumes "Points_py \<in> set (handles w) \<or> connect E = Inr ()"
  shows "trace (snd (delete_points E c (Some []) None wait w)) = trace w @ [Delete c None wait]
       \<and> fst (delete_points E c (Some []) None wait w) =
           Inr (case fst (io E (Delete c None wait) (engine w)) of
                  Inl e \<Rightarrow> handler ''Failed to delete points'' c e
                | Inr r \<Rightarrow> ToolResponse (JDict
                    [(''collection'', JStr c), (''operation'', JStr ''delete''),
                     (''deleted_by'', JStr ''filter''), (''ids_count'', JNull)]))
       \<and> fst (delete_points E c (Some []) None wait w) \<noteq>
           Inr (ToolError either_msg)"
  using assms
  by (auto simp: delete_points_def act_defs points_selector_def truthy_ids_def truthy_filter_def
        handler_def either_msg_def split: prod.splits sum.splits exn.splits)

theorem delete_points_empty_ids_witness:
  "trace (snd (delete_points ref_env ''kb'' (Some []) None True (world0 kb))) =
      [Delete ''kb'' None True]
   \<and> fst (delete_points ref_env ''kb'' (Some []) None True (world0 kb)) =
      Inr (ToolError ''Failed to delete points: Unsupported points selector type'')"
  using delete_points_empty_ids [where E = ref_env and c = "''kb''" and w = "world0 kb" and wait = True]
  by (simp add: ref_defs handler_def)

text \<open>
  Claim C3, as amended. With neither \<open>ids\<close> nor \<open>filter\<close>, \<open>delete_points\<close> returns an
  error and issues no request; the error is the precondition error once the client is
  there. With a list of \<open>ids\<close> that is not empty the filter is not looked at: the result is
  the one without a filter, and the deletion carries the identifiers of the list, each one
  normalized by \<open>_to_uuid\<close>, in the order of the list; when an identifier fails to normalize
  no request is issued.
\<close>

theorem delete_points_selection:
  "((\<exists>msg. fst (delete_points E c None None wait w) = Inr (ToolError msg))
      \<and> trace (snd (delete_points E c None None wait w)) = trace w
      \<and> engine (snd (delete_points E c None None wait w)) = engine w
      \<and> ((Points_py \<in> set (handles w) \<or> connect E = Inr ()) \<longrightarrow>
           fst (delete_points E c None None wait w) = Inr (ToolError either_msg)))
   \<and> (xs \<noteq> [] \<longrightarrow>
        delete_points E c (Some xs) flt wait w = delete_points E c (Some xs) None wait w)
   \<and> ((Points_py \<in> set (handles w) \<or> connect E = Inr ()) \<longrightarrow> xs \<noteq> [] \<longrightarrow>
        collect (to_uuid E) xs = Inr us \<longrightarrow>
          trace (snd (delete_points E c (Some xs) flt wait w)) =
            trace w @ [Delete c (Some (PointIdsList us)) wait]
          \<and> list_all2 (\<lambda>x u. to_uuid E x = Inr u) xs us)
   \<and> (xs \<noteq> [] \<longrightarrow> collect (to_uuid E) xs = Inl e \<longrightarrow>
        trace (snd (delete_points E c (Some xs) flt wait w)) = trace w)"
proof (intro conjI impI)
  consider (fail) e where "get_client E Points_py w = (Inl e, w)"
    | (ok) hs where "get_client E Points_py w = (Inr (), w\<lparr>handles := hs\<rparr>)"
    using get_client_result [of E Points_py w] by blast
  then have "(\<exists>msg. fst (delete_points E c None None wait w) = Inr (ToolError msg))
      \<and> trace (snd (delete_points E c None None wait w)) = trace w
      \<and> engine (snd (delete_points E c None None wait w)) = engine w"
  proof cases
    case fail
    then show ?thesis
      using handler_is_error [of "''Failed to delete points''" c e]
      by (auto simp: delete_points_def andthen_def catch_def)
  next
    case ok
    then show ?thesis
      by (simp add: delete_points_def andthen_def catch_def ret_def)
  qed
  then show "\<exists>msg. fst (delete_points E c None None wait w) = Inr (ToolError msg)"
    and "trace (snd (delete_points E c None None wait w)) = trace w"
    and "engine (snd (delete_points E c None None wait w)) = engine w"
    by blast+
next
  assume "Points_py \<in> set (handles w) \<or> connect E = Inr ()"
  then obtain hs where "get_client E Points_py w = (Inr (), w\<lparr>handles := hs\<rparr>)"
    using get_client_ok by blast
  then show "fst (delete_points E c None None wait w) = Inr (ToolError either_msg)"
    by (simp add: delete_points_def andthen_def catch_def ret_def either_msg_def)
next
  assume "xs \<noteq> []"
  then show "delete_points E c (Some xs) flt wait w = delete_points E c (Some xs) None wait w"
    by (simp add: delete_points_def points_selector_def truthy_ids_def)
next
  assume cl: "Points_py \<in> set (handles w) \<or> connect E = Inr ()" and ne: "xs \<noteq> []"
    and us: "collect (to_uuid E) xs = Inr us"
  obtain hs where "get_client E Points_py w = (Inr (), w\<lparr>handles := hs\<rparr>)"
    using get_client_ok [OF cl] by blast
  then show "trace (snd (delete_points E c (Some xs) flt wait w)) =
            trace w @ [Delete c (Some (PointIdsList us)) wait]"
    using ne us
    by (auto simp: delete_points_def points_selector_def truthy_ids_def andthen_def catch_def
          ret_def lift_def call_def client_do_def split: prod.splits sum.splits)
  show "list_all2 (\<lambda>x u. to_uuid E x = Inr u) xs us"
    using collect_Inr [OF us] .
next
  assume ne: "xs \<noteq> []" and bad: "collect (to_uuid E) xs = Inl e"
  consider (fail) e' where "get_client E Points_py w = (Inl e', w)"
    | (ok) hs where "get_client E Points_py w = (Inr (), w\<lparr>handles := hs\<rparr>)"
    using get_client_result [of E Points_py w] by blast
  then show "trace (snd (delete_points E c (Some xs) flt wait w)) = trace w"
  proof cases
    case fail
    then show ?thesis
      by (auto simp: delete_points_def andthen_def catch_def)
  next
    case ok
    then show ?thesis
      using ne bad
      by (simp add: delete_points_def points_selector_def truthy_ids_def andthen_def catch_def
          ret_def lift_def)
  qed
qed

theorem delete_points_selection_witness:
  "fst (delete_points ref_env ''kb'' None None True (world0 kb)) = Inr (ToolError either_msg)
   \<and> trace (snd (delete_points ref_env ''kb'' None None True (world0 kb))) = []
   \<and> trace (snd (delete_points ref_env ''kb'' (Some [JStr ''doc-1'']) (Some [(''must'', JList [])])
         True (world0 kb))) = [Delete ''kb'' (Some (PointIdsList [doc1_uuid])) True]
   \<and> to_uuid ref_env (JStr ''doc-1'') = Inr doc1_uuid"
proof -
  have cl: "Points_py \<in> set (handles (world0 kb)) \<or> connect ref_env = Inr ()"
    by (simp add: ref_env_sel)
  have ne: "[JStr ''doc-1''] \<noteq> []"
    by simp
  note t = delete_points_selection [where E = ref_env and c = "''kb''" and wait = True
      and w = "world0 kb" and xs = "[JStr ''doc-1'']" and flt = "Some [(''must'', JList [])]"
      and us = "[doc1_uuid]" and e = "ValueError []"]
  have 1: "fst (delete_points ref_env ''kb'' None None True (world0 kb)) = Inr (ToolError either_msg)"
    and 2: "trace (snd (delete_points ref_env ''kb'' None None True (world0 kb))) = trace (world0 kb)"
    using t [THEN conjunct1] cl by blast+
  have 3: "trace (snd (delete_points ref_env ''kb'' (Some [JStr ''doc-1'']) (Some [(''must'', JList [])])
         True (world0 kb))) = trace (world0 kb) @ [Delete ''kb'' (Some (PointIdsList [doc1_uuid])) True]"
    using t [THEN conjunct2, THEN conjunct2, THEN conjunct1] cl ne collect_doc1 by blast
  show ?thesis
    using 1 2 3 to_uuid_doc1 by (simp add: world0_sel)
qed

text \<open>
  The claim as stated fails when \<open>ids\<close> is supplied as the empty list together with a
  filter: the deletion goes by the filter.
\<close>

theorem delete_points_empty_ids_filter_counterexample:
  "trace (snd (delete_points ref_env ''kb'' (Some []) (Some [(''must'', JList [])]) True (world0 kb))) =
     [Delete ''kb'' (Some (FilterSelector (Filter [(''must'', JList [])]))) True]"
  by (simp add: delete_points_def points_selector_def truthy_ids_def truthy_filter_def act_defs
        ref_defs)

subsection \<open>The identifier normalizer\<close>

text \<open>
  Claim C4 fails on the code. \<open>_to_uuid\<close> is to convert any string, and falls back on
  \<open>uuid5\<close> when \<open>UUID\<close> raises \<open>ValueError\<close>; the fallback stands in the handler, outside
  any \<open>try\<close>. On a string holding a lone surrogate \<open>UUID\<close> raises \<open>ValueError\<close>, \<open>uuid5\<close>
  cannot encode the name as UTF-8, and \<open>UnicodeEncodeError\<close> leaves the normalizer.
\<close>

theorem to_uuid_lone_surrogate:
  "to_uuid ref_env (JStr [CHR 0xED, CHR 0xA0, CHR 0x80]) =
     Inl (UnicodeEncodeError ''utf-8 codec cannot encode character: surrogates not allowed'')"
  by (simp add: to_uuid_def str_of_def ref_env_def ref_UUID_def ref_uuid5_def)

text \<open>
  On the other strings the normalizer does what the claim says: a string that \<open>UUID\<close>
  accepts is returned as it is, and a string on which \<open>UUID\<close> raises \<open>ValueError\<close> gets what
  \<open>uuid5\<close> returns.
\<close>

lemma to_uuid_cases:
  "(uuid_UUID E s = Inr () \<longrightarrow> to_uuid E (JStr s) = Inr s)
   \<and> (uuid_UUID E s = Inl e \<and> is_ValueError e \<longrightarrow> to_uuid E (JStr s) = uuid_uuid5 E s)"
  by (simp add: to_uuid_def str_of_def)

lemma to_uuid_examples:
  "to_uuid ref_env (JStr ''eea9cb72-744e-5814-a929-652d970d86ac'') =
      Inr ''eea9cb72-744e-5814-a929-652d970d86ac''
   \<and> to_uuid ref_env (JStr ''doc-1'') = Inr ''eea9cb72-744e-5814-a929-652d970d86ac''"
  by (simp add: to_uuid_def str_of_def ref_env_sel ref_UUID_def ref_uuid5_def uuid5_recorded_def
        is_hex_def)

subsection \<open>Upserting points\<close>




text \<open>
  Claim C6. Every point of a valid batch is sent with the caller's identifier under
  \<open>original_id\<close> in its payload and with the normalized identifier as its id. On the
  reference engine, after the upsert of a valid batch whose normalized identifiers differ,
  fetching the identifier of any of its points with \<open>get_points\<close> gives exactly one point,
  whose id is the normalized identifier and whose payload holds the caller's identifier
  under \<open>original_id\<close>.
\<close>

theorem upsert_preserves_original_id:
  "((Points_py \<in> set (handles w) \<or> connect E = Inr ()) \<longrightarrow>
      points \<noteq> [] \<longrightarrow> list_all2 (sent_as E) points qs \<longrightarrow>
        trace (snd (upsert_points E c points wait w)) = trace w @ [Upsert c qs wait]
      \<and> (\<forall>i<length points. \<exists>pid. map_of (points ! i) ''id'' = Some pid
            \<and> map_of (ps_payload (qs ! i)) ''original_id'' = Some pid
            \<and> to_uuid E pid = Inr (ps_id (qs ! i))))
   \<and> (io E = mem_io \<longrightarrow> (Points_py \<in> set (handles w) \<or> connect E = Inr ()) \<longrightarrow>
        map_of (engine w) c = Some col \<longrightarrow> distinct (map fst (coll_points col)) \<longrightarrow>
        points \<noteq> [] \<longrightarrow> list_all2 (sent_as E) points qs \<longrightarrow> distinct (map ps_id qs) \<longrightarrow>
        i < length points \<longrightarrow> map_of (points ! i) ''id'' = Some pid \<longrightarrow>
          fst (upsert_points E c points wait w) =
            Inr (ToolResponse (JDict
              [(''collection'', JStr c),
               (''upserted_count'', JInt (int (length points))),
               (''operation'', JStr ''upsert'')]))
        \<and> (\<exists>pl. fst (get_points E c [pid] True False (snd (upsert_points E c points wait w))) =
               Inr (ToolResponse (JDict
                 [(''collection'', JStr c),
                  (''points'', JList [JDict [(''id'', JStr (ps_id (qs ! i))), (''payload'', JDict pl)]]),
                  (''found_count'', JInt 1), (''requested_count'', JInt 1)]))
             \<and> map_of pl ''original_id'' = Some pid)
        \<and> to_uuid E pid = Inr (ps_id (qs ! i)))"
proof (intro conjI impI)
  assume cl: "Points_py \<in> set (handles w) \<or> connect E = Inr ()"
    and ne: "points \<noteq> []" and all: "list_all2 (sent_as E) points qs"
  show "trace (snd (upsert_points E c points wait w)) = trace w @ [Upsert c qs wait]"
    using upsert_points_sends(1) [OF cl ne all] .
  show "\<forall>i<length points. \<exists>pid. map_of (points ! i) ''id'' = Some pid
            \<and> map_of (ps_payload (qs ! i)) ''original_id'' = Some pid
            \<and> to_uuid E pid = Inr (ps_id (qs ! i))"
  proof (intro allI impI)
    fix i
    assume i: "i < length points"
    have "sent_as E (points ! i) (qs ! i)"
      using list_all2_nthD [OF all i] .
    then show "\<exists>pid. map_of (points ! i) ''id'' = Some pid
            \<and> map_of (ps_payload (qs ! i)) ''original_id'' = Some pid
            \<and> to_uuid E pid = Inr (ps_id (qs ! i))"
      unfolding sent_as_def by (auto simp: update_conv')
  qed
next
  assume io: "io E = mem_io" and cl: "Points_py \<in> set (handles w) \<or> connect E = Inr ()"
    and col: "map_of (engine w) c = Some col" and dist: "distinct (map fst (coll_points col))"
    and ne: "points \<noteq> []" and all: "list_all2 (sent_as E) points qs"
    and ids: "distinct (map ps_id qs)" and i: "i < length points"
    and pid: "map_of (points ! i) ''id'' = Some pid"
  obtain hs where hs: "get_client E Points_py w = (Inr (), w\<lparr>handles := hs\<rparr>)"
    and mem: "Points_py \<in> set hs"
    using get_client_ok' [OF cl] by blast
  have loop: "upsert_loop E points [] = Inr (Inr qs)"
    using sent_as_upsert_loop [OF all, of "[]"] by simp
  have len: "length qs = length points"
    using all by (simp add: list_all2_lengthD)
  let ?r = "upsert_points E c points wait w"
  let ?col1 = "Coll (coll_vectors col) (foldl mem_put (coll_points col) qs)"
  have r: "?r = (Inr (ToolResponse (JDict
        [(''collection'', JStr c), (''upserted_count'', JInt (int (length qs))),
         (''operation'', JStr ''upsert'')])),
      w\<lparr>handles := hs, trace := trace w @ [Upsert c qs wait],
        engine := AList.update c ?col1 (engine w)\<rparr>)"
    using upsert_points_mem [OF io col hs loop ne] .
  show "fst ?r = Inr (ToolResponse (JDict
              [(''collection'', JStr c),
               (''upserted_count'', JInt (int (length points))),
               (''operation'', JStr ''upsert'')]))"
    using r len by simp
  have s: "sent_as E (points ! i) (qs ! i)"
    using list_all2_nthD [OF all i] .
  then have u: "to_uuid E pid = Inr (ps_id (qs ! i))"
    and orig: "map_of (ps_payload (qs ! i)) ''original_id'' = Some pid"
    using pid unfolding sent_as_def by (auto simp: update_conv')
  show "to_uuid E pid = Inr (ps_id (qs ! i))" using u .
  have ne': "ps_payload (qs ! i) \<noteq> []"
    using orig by auto
  have col1: "map_of (engine (snd ?r)) c = Some ?col1"
    by (simp add: r update_conv')
  have h1: "Points_py \<in> set (handles (snd ?r))"
    by (simp add: r mem)
  have qi: "qs ! i \<in> set qs"
    using i len by simp
  have f: "filter (\<lambda>(j, x). j = ps_id (qs ! i)) (coll_points ?col1) =
             [(ps_id (qs ! i), Stored (ps_vector (qs ! i)) (ps_payload (qs ! i)))]"
    using filter_key_distinct [OF distinct_mem_put [OF dist] map_of_mem_put [OF ids qi]]
    by simp
  have "fst (get_points E c [pid] True False (snd ?r)) =
     Inr (ToolResponse (JDict
       [(''collection'', JStr c),
        (''points'', JList [JDict [(''id'', JStr (ps_id (qs ! i))),
                                   (''payload'', JDict (ps_payload (qs ! i)))]]),
        (''found_count'', JInt 1), (''requested_count'', JInt 1)]))"
    using get_points_mem [OF io col1 h1 u f ne'] .
  then show "\<exists>pl. fst (get_points E c [pid] True False (snd ?r)) =
               Inr (ToolResponse (JDict
                 [(''collection'', JStr c),
                  (''points'', JList [JDict [(''id'', JStr (ps_id (qs ! i))), (''payload'', JDict pl)]]),
                  (''found_count'', JInt 1), (''requested_count'', JInt 1)]))
             \<and> map_of pl ''original_id'' = Some pid"
    using orig by blast
qed

theorem upsert_preserves_original_id_witness:
  "trace (snd (upsert_points ref_env ''kb'' [doc1, doc2] True (world0 kb))) =
      [Upsert ''kb'' [doc1_struct, doc2_struct] True]
   \<and> map_of (ps_payload ([doc1_struct, doc2_struct] ! 1)) ''original_id'' = Some (JStr ''doc-2'')
   \<and> (\<exists>pl. fst (get_points ref_env ''kb'' [JStr ''doc-1''] True False
                  (snd (upsert_points ref_env ''kb'' [doc1, doc2] True (world0 kb)))) =
          Inr (ToolResponse (JDict
            [(''collection'', JStr ''kb''),
             (''points'', JList [JDict [(''id'', JStr doc1_uuid), (''payload'', JDict pl)]]),
             (''found_count'', JInt 1), (''requested_count'', JInt 1)]))
        \<and> map_of pl ''original_id'' = Some (JStr ''doc-1''))
   \<and> doc1_uuid \<noteq> ''doc-1''"
proof -
  let ?col = "Coll [(''text-dense'', VectorParams 4 COSINE False)] []"
  have both: "list_all2 (sent_as ref_env) [doc1, doc2] [doc1_struct, doc2_struct]"
    by (simp add: sent_as_doc1 sent_as_doc2)
  have ne: "[doc1, doc2] \<noteq> []"
    by simp
  note t = upsert_preserves_original_id [where E = ref_env and c = "''kb''" and wait = True
      and w = "world0 kb" and points = "[doc1, doc2]" and qs = "[doc1_struct, doc2_struct]"
      and col = ?col and i = 0 and pid = "JStr ''doc-1''"]
  have 1: "trace (snd (upsert_points ref_env ''kb'' [doc1, doc2] True (world0 kb))) =
      trace (world0 kb) @ [Upsert ''kb'' [doc1_struct, doc2_struct] True]"
    and 2: "\<forall>i<length [doc1, doc2]. \<exists>pid. map_of ([doc1, doc2] ! i) ''id'' = Some pid
            \<and> map_of (ps_payload ([doc1_struct, doc2_struct] ! i)) ''original_id'' = Some pid
            \<and> to_uuid ref_env pid = Inr (ps_id ([doc1_struct, doc2_struct] ! i))"
    using t [THEN conjunct1] client_ref ne both by blast+
  have "\<exists>pid. map_of ([doc1, doc2] ! 1) ''id'' = Some pid
            \<and> map_of (ps_payload ([doc1_struct, doc2_struct] ! 1)) ''original_id'' = Some pid"
    using 2 by (simp add: less_Suc_eq) blast
  then have 3: "map_of (ps_payload ([doc1_struct, doc2_struct] ! 1)) ''original_id'' = Some (JStr ''doc-2'')"
    by (auto simp: doc2_def)
  have io: "io ref_env = mem_io"
    and col: "map_of (engine (world0 kb)) ''kb'' = Some ?col"
    and dist: "distinct (map fst (coll_points ?col))"
    and ids: "distinct (map ps_id [doc1_struct, doc2_struct])"
    and i: "(0::nat) < length [doc1, doc2]"
    and pid: "map_of ([doc1, doc2] ! 0) ''id'' = Some (JStr ''doc-1'')"
    by (simp_all add: ref_env_sel world0_sel kb_def doc1_def doc1_struct_def doc2_struct_def
          doc1_uuid_def doc2_uuid_def)
  have 4: "\<exists>pl. fst (get_points ref_env ''kb'' [JStr ''doc-1''] True False
                  (snd (upsert_points ref_env ''kb'' [doc1, doc2] True (world0 kb)))) =
          Inr (ToolResponse (JDict
            [(''collection'', JStr ''kb''),
             (''points'', JList [JDict [(''id'', JStr (ps_id ([doc1_struct, doc2_struct] ! 0))),
                                        (''payload'', JDict pl)]]),
             (''found_count'', JInt 1), (''requested_count'', JInt 1)]))
        \<and> map_of pl ''original_id'' = Some (JStr ''doc-1'')"
    using t [THEN conjunct2] io client_ref col dist ne both ids i pid by blast
  have 5: "ps_id ([doc1_struct, doc2_struct] ! 0) = doc1_uuid"
    by (simp add: doc1_struct_def)
  have 6: "doc1_uuid \<noteq> ''doc-1''"
    by (simp add: doc1_uuid_def)
  show ?thesis
    using 1 3 4 5 6 by (simp add: world0_sel)
qed

subsection \<open>Scrolling\<close>

text \<open>
  Claim C7 fails on the code. The field \<open>next_offset\<close> is chosen by the truth value of the
  cursor and \<open>has_more\<close> by its comparison with \<open>None\<close>: when the engine answers with the
  cursor \<open>0\<close>, the tool reports no \<open>next_offset\<close> and \<open>has_more\<close> true.
\<close>

theorem scroll_points_zero_cursor:
  "fst (scroll_points (ref_env\<lparr>io := \<lambda>rq s. (Inr (RScroll [] (Some (IntId 0))), s)\<rparr>)
          ''kb'' 2 None None True False (world0 kb)) =
     Inr (ToolResponse (JDict
       [(''collection'', JStr ''kb''), (''points'', JList []), (''count'', JInt 0),
        (''next_offset'', JNull), (''has_more'', JBool True)]))"
  by (simp add: scroll_points_def act_defs client_scroll_def build_filter_def next_offset_out_def
        truthy_id_def ref_env_def world0_def)

text \<open>What the two fields hold for any cursor, on an empty page.\<close>

lemma scroll_points_cursor:
  assumes "Points_py \<in> set (handles w) \<or> connect E = Inr ()"
    and "io E (Scroll c limit offset None wp wv) (engine w) = (Inr (RScroll [] nxt), s1)"
  shows "fst (scroll_points E c limit offset None wp wv w) =
     Inr (ToolResponse (JDict
       [(''collection'', JStr c), (''points'', JList []), (''count'', JInt 0),
        (''next_offset'', next_offset_out E nxt), (''has_more'', JBool (nxt \<noteq> None))]))"
  using assms
  by (auto simp: scroll_points_def act_defs client_scroll_def build_filter_def)

subsection \<open>The result envelope\<close>

lemma catch_returns_envelope: "returns_envelope (catch m h) w"
proof (cases "m w")
  case (Pair r w')
  then show ?thesis
    by (cases r) (auto simp: returns_envelope_def catch_def split: envelope.splits)
qed

text \<open>
  Claim C1. Each of the eighteen tools returns an envelope on every input, in every world
  and whatever the client, the engine, the \<open>uuid\<close> module and the model constructors
  return or raise: a \<open>ToolResponse\<close> with status \<open>success\<close> or a \<open>ToolError\<close> with status
  \<open>error\<close>, never an exception.
\<close>

theorem tools_return_envelopes:
  "returns_envelope (list_collections E) w
   \<and> returns_envelope (create_collection E name vector_size distance on_disk m ef sparse) w
   \<and> returns_envelope (delete_collection E name confirm) w
   \<and> returns_envelope (get_collection_info E name) w
   \<and> returns_envelope (update_collection E name m_opt ef_opt threshold flush) w
   \<and> returns_envelope (count_points E collection exact flt) w
   \<and> returns_envelope (get_points E collection ids with_payload with_vector) w
   \<and> returns_envelope (scroll_points E collection limit offset flt with_payload with_vector) w
   \<and> returns_envelope (upsert_points E collection points wait) w
   \<and> returns_envelope (delete_points E collection ids_opt flt wait) w
   \<and> returns_envelope
        (search_vectors E collection vector limit thr flt vector_name with_payload with_vector) w
   \<and> returns_envelope (search_batch E collection queries vector_name with_payload) w
   \<and> returns_envelope
        (recommend_points E collection positive negative limit thr flt vector_name with_payload) w
   \<and> returns_envelope (optimize_collection E collection wait) w
   \<and> returns_envelope (create_snapshot E collection wait) w
   \<and> returns_envelope (list_snapshots E collection) w
   \<and> returns_envelope (get_cluster_info E) w
   \<and> returns_envelope (health_check E) w"
  unfolding list_collections_def create_collection_def delete_collection_def
    get_collection_info_def update_collection_def count_points_def get_points_def
    scroll_points_def upsert_points_def delete_points_def search_vectors_def search_batch_def
    recommend_points_def optimize_collection_def create_snapshot_def list_snapshots_def
    get_cluster_info_def health_check_def
  by (intro conjI catch_returns_envelope)

theorem tools_return_envelopes_witness:
  "returns_envelope (list_collections ref_env) (world0 kb)
   \<and> returns_envelope (update_collection ref_env ''kb'' None None None None) (world0 kb)
   \<and> returns_envelope (get_points ref_env ''kb'' [JStr [CHR 0xED, CHR 0xA0, CHR 0x80]] True False)
        (world0 kb)
   \<and> returns_envelope (health_check ref_env) (world0 kb)
   \<and> fst (update_collection ref_env ''kb'' None None None None (world0 kb)) =
        Inr (ToolError ''No update parameters provided'')
   \<and> fst (health_check ref_env (world0 kb)) =
        Inr (ToolError ''Health check failed: not supported by the reference engine'')"
proof -
  have u: "fst (update_collection ref_env ''kb'' None None None None (world0 kb)) =
        Inr (ToolError ''No update parameters provided'')"
    by (simp add: update_collection_def act_defs ref_env_sel world0_def)
  have h: "fst (health_check ref_env (world0 kb)) =
        Inr (ToolError ''Health check failed: not supported by the reference engine'')"
    by (simp add: health_check_def time_def act_defs ref_env_sel world0_def handler_plain_def
          unsupported_def)
  show ?thesis
    using tools_return_envelopes [where E = ref_env and w = "world0 kb" and name = "''kb''"
        and vector_size = 4 and distance = "''cosine''" and on_disk = False and m = 16
        and ef = 100 and sparse = False and confirm = False and m_opt = None and ef_opt = None
        and threshold = None and flush = None and collection = "''kb''" and exact = False
        and flt = None and ids = "[JStr [CHR 0xED, CHR 0xA0, CHR 0x80]]" and with_payload = True
        and with_vector = False and limit = 10 and offset = None and points = "[doc1]"
        and wait = True and ids_opt = None and vector = "[]" and thr = None
        and vector_name = "''text-dense''" and queries = "[]" and positive = "[]"
        and negative = None]
      u h
    by simp
qed

text \<open>
  For instance the exception that leaves \<open>_to_uuid\<close> on a lone surrogate is turned into an
  error envelope by \<open>get_points\<close>, and no request is issued.
\<close>

lemma get_points_surrogate:
  "get_points ref_env ''kb'' [JStr [CHR 0xED, CHR 0xA0, CHR 0x80]] True False (world0 kb) =
     (Inr (ToolError (''Failed to get points: ''
         @ ''utf-8 codec cannot encode character: surrogates not allowed'')),
      \<lparr>handles = [Points_py], trace = [], engine = kb\<rparr>)"
  by (simp add: get_points_def act_defs to_uuid_def str_of_def ref_env_sel ref_UUID_def
        ref_uuid5_def handler_def world0_def)

end
